theory Spec2Isabelle
  imports Main "HOL-Library.Word" "HOL-Library.Signed_Division"
begin

section \<open>Basic types of the relayer and of the on-chain client\<close>

type_synonym bytes = "8 word list"

text \<open>\<^verbatim>\<open>common.Address\<close> is a 20-byte array; the zero array \<^verbatim>\<open>[20]byte{}\<close> is the word 0.\<close>

type_synonym address = "160 word"

text \<open>\<^verbatim>\<open>core.MsgID\<close> is an interface value; the nil interface is \<open>None\<close> of an option.\<close>

type_synonym msg_id = nat

subsection \<open>Go time\<close>

text \<open>
  A \<^verbatim>\<open>time.Time\<close> without a monotonic reading holds \<^verbatim>\<open>ext\<close>, the seconds since January 1
  of year 1 in an \<^verbatim>\<open>int64\<close>, and the nanoseconds within the second; \<^verbatim>\<open>After\<close> and
  \<^verbatim>\<open>Equal\<close> compare the two lexicographically (a time with a monotonic reading, such as
  \<^verbatim>\<open>time.Now()\<close>, is compared in the same way with one that has none). A time is written
  here as its count of nanoseconds since the Unix epoch, so that \<^verbatim>\<open>ext\<close> is the count's
  whole seconds plus \<^verbatim>\<open>unixToInternal\<close>; the \<^verbatim>\<open>int64\<close> arithmetic on \<^verbatim>\<open>ext\<close> is written out.
  A \<^verbatim>\<open>time.Duration\<close> is an \<^verbatim>\<open>int64\<close> count of nanoseconds: conversions and products
  wrap, division truncates towards zero.
\<close>

type_synonym time = int

type_synonym duration = "64 word"

definition Second :: duration where
  "Second = 1000000000"

definition unixToInternal :: int where
  "unixToInternal = 62135596800"

text \<open>The value of an integer after wrapping into \<^verbatim>\<open>int64\<close>.\<close>

definition int64 :: "int \<Rightarrow> int" where
  "int64 x = sint (word_of_int x :: 64 word)"

text \<open>
  \<^verbatim>\<open>time.Unix(sec, 0)\<close> is \<^verbatim>\<open>Time{0, sec + unixToInternal, Local}\<close>: the sum wraps in
  \<^verbatim>\<open>int64\<close>.
\<close>

definition time_Unix :: "64 word \<Rightarrow> time" where
  "time_Unix sec = (int64 (sint sec + unixToInternal) - unixToInternal) * 1000000000"

text \<open>
  \<^verbatim>\<open>addSec\<close> of the package \<^verbatim>\<open>time\<close>, for a time without a monotonic reading: the sum of
  \<^verbatim>\<open>ext\<close> and the seconds, saturated at the ends of \<^verbatim>\<open>int64\<close> when it overflows.
\<close>

definition addSec :: "int \<Rightarrow> int \<Rightarrow> int" where
  "addSec ext d =
     (let sum = int64 (ext + d) in
      if (ext < sum) = (0 < d) then sum
      else if 0 < d then 2 ^ 63 - 1
      else - (2 ^ 63 - 1))"

text \<open>
  \<^verbatim>\<open>t.Add(d)\<close>: the seconds and the nanoseconds of the duration are added apart, the
  nanoseconds are brought back into one second, and the seconds go through \<^verbatim>\<open>addSec\<close>.
\<close>

definition time_Add :: "time \<Rightarrow> duration \<Rightarrow> time" where
  "time_Add t d =
     (let dsec = sint d sdiv 1000000000;
          nsec = t mod 1000000000 + sint d smod 1000000000;
          ext = t div 1000000000 + unixToInternal
      in if 1000000000 \<le> nsec
         then (addSec ext (dsec + 1) - unixToInternal) * 1000000000 + (nsec - 1000000000)
         else if nsec < 0
         then (addSec ext (dsec - 1) - unixToInternal) * 1000000000 + (nsec + 1000000000)
         else (addSec ext dsec - unixToInternal) * 1000000000 + nsec)"

definition time_After :: "time \<Rightarrow> time \<Rightarrow> bool" where
  "time_After t u = (u < t)"

definition time_Equal :: "time \<Rightarrow> time \<Rightarrow> bool" where
  "time_Equal t u = (t = u)"

text \<open>\<^verbatim>\<open>t.Unix()\<close>: the whole seconds since the epoch, as an \<^verbatim>\<open>int64\<close>.\<close>

definition time_UnixSeconds :: "time \<Rightarrow> 64 word" where
  "time_UnixSeconds t = word_of_int (t div 1000000000)"

definition duration_quot :: "duration \<Rightarrow> int \<Rightarrow> duration" where
  "duration_quot d n = word_of_int (sint d sdiv n)"

subsection \<open>Errors\<close>

datatype error =
    ErrEnclaveKeyInfoNotFound
  | ErrNoAvailableEnclaveKeys
  | ErrAllKeysNotAllowed
  | ErrMsgExecutionFailed msg_id
  | ErrMrenclaveMismatch
  | ErrCastClientState
  | ErrOperatorNotIncluded
  | ErrOperatorMismatch
  | ErrUnexpectedNumberOfMsgIDs
  | ErrNilPointer
  | ErrInvalidHeader string
  | ErrExternal string
  | Wrapped string error

text \<open>\<^verbatim>\<open>errors.Is\<close> walks the chain of wrapped errors.\<close>

fun errors_Is :: "error \<Rightarrow> error \<Rightarrow> bool" where
  "errors_Is (Wrapped s e) target = (Wrapped s e = target \<or> errors_Is e target)"
| "errors_Is e target = (e = target)"

subsection \<open>Heights\<close>

text \<open>
  \<^verbatim>\<open>clienttypes.Height\<close> of ibc-go: a revision number and a revision height, compared
  lexicographically.
\<close>

record Height =
  RevisionNumber :: "64 word"
  RevisionHeight :: "64 word"

definition Height_LT :: "Height \<Rightarrow> Height \<Rightarrow> bool" where
  "Height_LT a b =
     (RevisionNumber a < RevisionNumber b \<or>
      (RevisionNumber a = RevisionNumber b \<and> RevisionHeight a < RevisionHeight b))"

definition Height_LTE :: "Height \<Rightarrow> Height \<Rightarrow> bool" where
  "Height_LTE a b =
     (RevisionNumber a < RevisionNumber b \<or>
      (RevisionNumber a = RevisionNumber b \<and> RevisionHeight a \<le> RevisionHeight b))"

subsection \<open>Attestation reports\<close>

text \<open>The quote statuses of the IAS library and their \<^verbatim>\<open>String()\<close> forms.\<close>

datatype ISVEnclaveQuoteStatus =
    QuoteOK
  | QuoteSignatureInvalid
  | QuoteGroupRevoked
  | QuoteSignatureRevoked
  | QuoteKeyRevoked
  | QuoteSigRLVersionMismatch
  | QuoteGroupOutOfDate
  | QuoteConfigurationNeeded
  | QuoteSwHardeningNeeded
  | QuoteConfigurationAndSwHardeningNeeded

fun status_String :: "ISVEnclaveQuoteStatus \<Rightarrow> string" where
  "status_String QuoteOK = ''OK''"
| "status_String QuoteSignatureInvalid = ''SIGNATURE_INVALID''"
| "status_String QuoteGroupRevoked = ''GROUP_REVOKED''"
| "status_String QuoteSignatureRevoked = ''SIGNATURE_REVOKED''"
| "status_String QuoteKeyRevoked = ''KEY_REVOKED''"
| "status_String QuoteSigRLVersionMismatch = ''SIGRL_VERSION_MISMATCH''"
| "status_String QuoteGroupOutOfDate = ''GROUP_OUT_OF_DATE''"
| "status_String QuoteConfigurationNeeded = ''CONFIGURATION_NEEDED''"
| "status_String QuoteSwHardeningNeeded = ''SW_HARDENING_NEEDED''"
| "status_String QuoteConfigurationAndSwHardeningNeeded =
     ''CONFIGURATION_AND_SW_HARDENING_NEEDED''"

record Quote =
  MRENCLAVE :: bytes
  ReportData :: bytes

record AVR =
  ISVEnclaveQuoteStatus :: ISVEnclaveQuoteStatus
  AdvisoryIDs :: "string list"
  GetTimestamp :: time
  GetQuote :: "error + Quote"

text \<open>
  The functions of the package \<^verbatim>\<open>sgx/ias\<close> that the code calls are parameters: signature
  and certificate verification, parsing, and the split of the report data.
\<close>

record ias =
  VerifyReport :: "bytes \<Rightarrow> bytes \<Rightarrow> bytes \<Rightarrow> time \<Rightarrow> error option"
  ParseAndValidateAVR :: "bytes \<Rightarrow> error + AVR"
  GetEKAndOperator :: "Quote \<Rightarrow> error + address \<times> address"
  GetEnclaveKeyAddress :: "Quote \<Rightarrow> error + address"

record EnclaveKeyInfo =
  EnclaveKeyAddress :: bytes
  AttestationTime :: "64 word"
  Report :: bytes
  Signature :: bytes
  SigningCert :: bytes

section \<open>The on-chain client state and the messages of the relayer\<close>

record ClientState =
  cs_LatestHeight :: Height
  cs_Mrenclave :: bytes
  cs_KeyExpiration :: "64 word"
  cs_AllowedQuoteStatuses :: "string list"
  cs_AllowedAdvisoryIds :: "string list"
  cs_Operators :: "address list"

text \<open>What unpacking an \<^verbatim>\<open>Any\<close> into \<^verbatim>\<open>ibcexported.ClientState\<close> can give.\<close>

datatype exported_ClientState =
    LcpClientState ClientState
  | OtherClientState string

record RegisterEnclaveKeyMessage =
  msg_Report :: bytes
  msg_Signature :: bytes
  msg_SigningCert :: bytes
  msg_OperatorSignature :: "bytes option"

record MsgUpdateClient =
  ClientId :: string
  ClientMessage :: RegisterEnclaveKeyMessage
  Signer :: string

record MsgResult =
  Status :: "bool \<times> string"
  BlockHeight :: Height

section \<open>The relayer's configuration and collaborators\<close>

record ProverConfig =
  KeyExpiration :: "64 word"
  AllowedQuoteStatuses :: "string list"
  AllowedAdvisoryIds :: "string list"
  GetMrenclave :: bytes

record LCPServiceClient =
  AvailableEnclaveKeys :: "bytes \<Rightarrow> error + EnclaveKeyInfo list"
  EnclaveKey :: "bytes \<Rightarrow> error + EnclaveKeyInfo"

text \<open>
  The destination chain of one tick: its answers to the queries, and its answer to a
  submission. The submissions themselves are recorded in the relayer's world below.
\<close>

record Chain =
  GetLatestFinalizedHeader :: "error + Height"
  GetMsgResult :: "msg_id \<Rightarrow> error + MsgResult"
  LatestHeight :: "error + Height"
  QueryClientState :: "Height \<Rightarrow> error + bytes"
  GetAddress :: "error + string"
  PathClientID :: string
  SendMsgs :: "MsgUpdateClient list \<Rightarrow> error + msg_id list"

record Operator =
  IsOperatorEnabled :: bool
  GetSignerAddress :: "error + address"
  ComputeEIP712RegisterEnclaveKeyHash :: "bytes \<Rightarrow> error + bytes"
  Sign :: "bytes \<Rightarrow> error + bytes"

datatype store_op =
    OpSaveFinalized
  | OpSaveUnfinalized
  | OpLoadLastFinalized
  | OpLoadLastUnfinalized
  | OpRemoveUnfinalized

record env =
  config :: ProverConfig
  lcpServiceClient :: LCPServiceClient
  counterparty :: Chain
  eip712Signer :: Operator
  iaslib :: ias
  UnpackAny :: "bytes \<Rightarrow> error + exported_ClientState"
  PackClientMessage :: "RegisterEnclaveKeyMessage \<Rightarrow> error option"
  disk_fault :: "store_op \<Rightarrow> bool"

section \<open>The persistent key store\<close>

record KeyStore =
  finalized_recs :: "EnclaveKeyInfo list"
  unfinalized_rec :: "(EnclaveKeyInfo \<times> msg_id) option"

text \<open>
  Modelled from the spec: \<^verbatim>\<open>loadLastFinalizedEnclaveKey\<close> is not in the source file. The
  spec's \<^verbatim>\<open>LoadLastFinalized()\<close> returns the most recent finalized record by attestation
  time and \<^verbatim>\<open>NotFound\<close> if there is none; every operation of the store can fail.
\<close>

fun most_recent :: "EnclaveKeyInfo \<Rightarrow> EnclaveKeyInfo list \<Rightarrow> EnclaveKeyInfo" where
  "most_recent best [] = best"
| "most_recent best (k # ks) =
     most_recent (if AttestationTime best < AttestationTime k then k else best) ks"

definition loadLastFinalizedEnclaveKey :: "env \<Rightarrow> KeyStore \<Rightarrow> error + EnclaveKeyInfo" where
  "loadLastFinalizedEnclaveKey e st =
     (if disk_fault e OpLoadLastFinalized then Inl (ErrExternal ''load finalized'')
      else (case finalized_recs st of
              [] \<Rightarrow> Inl ErrEnclaveKeyInfoNotFound
            | k # ks \<Rightarrow> Inr (most_recent k ks)))"

text \<open>
  Modelled from the spec: \<^verbatim>\<open>loadLastUnfinalizedEnclaveKey\<close> is not in the source file. The
  spec's \<^verbatim>\<open>LoadLastUnfinalized()\<close> returns the sole unfinalized record with its message
  ID, and \<^verbatim>\<open>NotFound\<close> if there is none.
\<close>

definition loadLastUnfinalizedEnclaveKey ::
  "env \<Rightarrow> KeyStore \<Rightarrow> error + EnclaveKeyInfo \<times> msg_id" where
  "loadLastUnfinalizedEnclaveKey e st =
     (if disk_fault e OpLoadLastUnfinalized then Inl (ErrExternal ''load unfinalized'')
      else (case unfinalized_rec st of
              None \<Rightarrow> Inl ErrEnclaveKeyInfoNotFound
            | Some r \<Rightarrow> Inr r))"

text \<open>
  Modelled from the spec: \<^verbatim>\<open>saveFinalizedEnclaveKeyInfo\<close> is not in the source file. The
  spec's \<^verbatim>\<open>SaveFinalized(eki)\<close> writes a finalized record; records are files named by the
  enclave key address, so a record of the same address is replaced.
\<close>

definition saveFinalizedEnclaveKeyInfo ::
  "env \<Rightarrow> EnclaveKeyInfo \<Rightarrow> KeyStore \<Rightarrow> error + KeyStore" where
  "saveFinalizedEnclaveKeyInfo e eki st =
     (if disk_fault e OpSaveFinalized then Inl (ErrExternal ''save finalized'')
      else Inr (st\<lparr>finalized_recs :=
                  eki # filter (\<lambda>k. EnclaveKeyAddress k \<noteq> EnclaveKeyAddress eki) (finalized_recs st)\<rparr>))"

text \<open>
  Modelled from the spec: \<^verbatim>\<open>saveUnfinalizedEnclaveKeyInfo\<close> is not in the source file. The
  spec's \<^verbatim>\<open>SaveUnfinalized(eki, msg_id)\<close> writes an unfinalized record and fails if any
  other unfinalized record exists.
\<close>

definition saveUnfinalizedEnclaveKeyInfo ::
  "env \<Rightarrow> EnclaveKeyInfo \<Rightarrow> msg_id \<Rightarrow> KeyStore \<Rightarrow> error + KeyStore" where
  "saveUnfinalizedEnclaveKeyInfo e eki msgID st =
     (if disk_fault e OpSaveUnfinalized then Inl (ErrExternal ''save unfinalized'')
      else (case unfinalized_rec st of
              None \<Rightarrow> Inr (st\<lparr>unfinalized_rec := Some (eki, msgID)\<rparr>)
            | Some (k, m) \<Rightarrow>
                if EnclaveKeyAddress k = EnclaveKeyAddress eki
                then Inr (st\<lparr>unfinalized_rec := Some (eki, msgID)\<rparr>)
                else Inl (ErrExternal ''another unfinalized record exists'')))"

text \<open>
  Modelled from the spec: \<^verbatim>\<open>removeUnfinalizedEnclaveKeyInfo\<close> is not in the source file.
  The spec's \<^verbatim>\<open>RemoveUnfinalized()\<close> removes the unfinalized record if any, and is
  idempotent.
\<close>

definition removeUnfinalizedEnclaveKeyInfo :: "env \<Rightarrow> KeyStore \<Rightarrow> error + KeyStore" where
  "removeUnfinalizedEnclaveKeyInfo e st =
     (if disk_fault e OpRemoveUnfinalized then Inl (ErrExternal ''remove unfinalized'')
      else Inr (st\<lparr>unfinalized_rec := None\<rparr>))"

section \<open>The state of the prover\<close>

text \<open>
  The two fields of the \<^verbatim>\<open>Prover\<close> that hold the active key, the store on disk, and the
  record of what was submitted to the destination chain. \<open>mem_trace\<close> keeps every value the
  pair of fields takes: each assignment of the source appends the new pair.
\<close>

record world =
  activeEnclaveKey :: "EnclaveKeyInfo option"
  unfinalizedMsgID :: "msg_id option"
  mem_trace :: "(EnclaveKeyInfo option \<times> msg_id option) list"
  db :: KeyStore
  sent :: "MsgUpdateClient list list"

definition observe :: "world \<Rightarrow> world" where
  "observe w = w\<lparr>mem_trace := mem_trace w @ [(activeEnclaveKey w, unfinalizedMsgID w)]\<rparr>"

definition assign_activeEnclaveKey :: "EnclaveKeyInfo option \<Rightarrow> world \<Rightarrow> world" where
  "assign_activeEnclaveKey k w = observe (w\<lparr>activeEnclaveKey := k\<rparr>)"

definition assign_unfinalizedMsgID :: "msg_id option \<Rightarrow> world \<Rightarrow> world" where
  "assign_unfinalizedMsgID m w = observe (w\<lparr>unfinalizedMsgID := m\<rparr>)"

text \<open>The tuple assignment \<^verbatim>\<open>pr.activeEnclaveKey, pr.unfinalizedMsgID = nil, nil\<close>.\<close>

definition assign_both :: "EnclaveKeyInfo option \<Rightarrow> msg_id option \<Rightarrow> world \<Rightarrow> world" where
  "assign_both k m w = observe (w\<lparr>activeEnclaveKey := k, unfinalizedMsgID := m\<rparr>)"

section \<open>The relayer: the enclave key lifecycle\<close>

text \<open>
  The clock: \<^verbatim>\<open>time.Now()\<close> is read at the start of \<^verbatim>\<open>loadEKIAndCheckUpdateNeeded\<close>, for
  each candidate of the selection and in \<^verbatim>\<open>registerEnclaveKey\<close>. The functions below take
  the instant \<open>now\<close> as a parameter, one instant for each call.
\<close>

subsection \<open>\<^verbatim>\<open>checkEKIUpdateNeeded\<close>\<close>

text \<open>
  \<^verbatim>\<open>attestationTime.Add(time.Duration(pr.config.KeyExpiration) * time.Second / 2)\<close>: the
  product is taken first, in \<^verbatim>\<open>int64\<close>, and then halved.
\<close>

definition updateTime :: "env \<Rightarrow> EnclaveKeyInfo \<Rightarrow> time" where
  "updateTime e eki =
     time_Add (time_Unix (AttestationTime eki))
       (duration_quot (KeyExpiration (config e) * Second) 2)"

definition checkEKIUpdateNeeded :: "env \<Rightarrow> time \<Rightarrow> EnclaveKeyInfo \<Rightarrow> bool" where
  "checkEKIUpdateNeeded e timestamp eki =
     (if time_After timestamp (updateTime e eki) then True
      else (case EnclaveKey (lcpServiceClient e) (EnclaveKeyAddress eki) of
              Inl err \<Rightarrow> True
            | Inr k \<Rightarrow> False))"

subsection \<open>\<^verbatim>\<open>checkMsgStatus\<close>\<close>

text \<open>The result is \<open>(finalized, success)\<close> or the error.\<close>

definition checkMsgStatus :: "env \<Rightarrow> msg_id \<Rightarrow> error + bool \<times> bool" where
  "checkMsgStatus e msgID =
     (case GetLatestFinalizedHeader (counterparty e) of
        Inl err \<Rightarrow> Inl err
      | Inr lfHeight \<Rightarrow>
          (case GetMsgResult (counterparty e) msgID of
             Inl err \<Rightarrow> Inl err
           | Inr msgRes \<Rightarrow>
               if \<not> fst (Status msgRes) then Inr (False, False)
               else Inr (Height_LTE (BlockHeight msgRes) lfHeight, True)))"

subsection \<open>\<^verbatim>\<open>loadEKIAndCheckUpdateNeeded\<close>\<close>

text \<open>
  The first block of the function (\<^verbatim>\<open>if pr.activeEnclaveKey == nil\<close>): it loads a key from
  the store into memory, or returns early (\<open>Some\<close> of the result).
\<close>

definition loadEKI :: "env \<Rightarrow> world \<Rightarrow> (error + bool) option \<times> world" where
  "loadEKI e w =
     (if activeEnclaveKey w \<noteq> None then (None, w)
      else
        (case loadLastUnfinalizedEnclaveKey e (db w) of
           Inr (eki, msgID) \<Rightarrow>
             (None, assign_unfinalizedMsgID (Some msgID) (assign_activeEnclaveKey (Some eki) w))
         | Inl err \<Rightarrow>
             if errors_Is err ErrEnclaveKeyInfoNotFound then
               (case loadLastFinalizedEnclaveKey e (db w) of
                  Inl err2 \<Rightarrow>
                    if errors_Is err2 ErrEnclaveKeyInfoNotFound then (Some (Inr True), w)
                    else (Some (Inl err2), w)
                | Inr eki \<Rightarrow>
                    (None, assign_unfinalizedMsgID None (assign_activeEnclaveKey (Some eki) w)))
             else (Some (Inl err), w)))"

text \<open>
  The branch \<^verbatim>\<open>else if finalized\<close>: the message of the active key is executed and
  finalized.
\<close>

definition finalizedBranch ::
  "env \<Rightarrow> time \<Rightarrow> EnclaveKeyInfo \<Rightarrow> world \<Rightarrow> (error + bool) \<times> world" where
  "finalizedBranch e now eki w =
     (if checkEKIUpdateNeeded e now eki then (Inr True, w)
      else
        (case saveFinalizedEnclaveKeyInfo e eki (db w) of
           Inl err \<Rightarrow> (Inl err, w)
         | Inr db1 \<Rightarrow>
             (case removeUnfinalizedEnclaveKeyInfo e db1 of
                Inl err \<Rightarrow> (Inl err, w\<lparr>db := db1\<rparr>)
              | Inr db2 \<Rightarrow> (Inr False, assign_unfinalizedMsgID None (w\<lparr>db := db2\<rparr>)))))"

text \<open>
  The rest of the function, from \<^verbatim>\<open>if pr.unfinalizedMsgID == nil\<close> on. Reading the fields of
  a nil \<^verbatim>\<open>activeEnclaveKey\<close> panics; the panic is the value \<open>ErrNilPointer\<close>.
\<close>

definition checkActiveEKI :: "env \<Rightarrow> time \<Rightarrow> world \<Rightarrow> (error + bool) \<times> world" where
  "checkActiveEKI e now w =
     (case unfinalizedMsgID w of
        None \<Rightarrow>
          (case activeEnclaveKey w of
             None \<Rightarrow> (Inl ErrNilPointer, w)
           | Some eki \<Rightarrow> (Inr (checkEKIUpdateNeeded e now eki), w))
      | Some msgID \<Rightarrow>
          (case GetMsgResult (counterparty e) msgID of
             Inl err \<Rightarrow>
               (case removeUnfinalizedEnclaveKeyInfo e (db w) of
                  Inl err2 \<Rightarrow> (Inl err2, w)
                | Inr db1 \<Rightarrow> (Inr True, w\<lparr>db := db1\<rparr>))
           | Inr r \<Rightarrow>
               (case checkMsgStatus e msgID of
                  Inl err \<Rightarrow> (Inl err, w)
                | Inr (finalized, success) \<Rightarrow>
                    if \<not> success then
                      (case removeUnfinalizedEnclaveKeyInfo e (db w) of
                         Inl err2 \<Rightarrow> (Inl err2, w)
                       | Inr db1 \<Rightarrow> (Inr True, w\<lparr>db := db1\<rparr>))
                    else
                      (case activeEnclaveKey w of
                         None \<Rightarrow> (Inl ErrNilPointer, w)
                       | Some eki \<Rightarrow>
                           if finalized then finalizedBranch e now eki w
                           else (Inr (checkEKIUpdateNeeded e now eki), w)))))"

definition loadEKIAndCheckUpdateNeeded ::
  "env \<Rightarrow> time \<Rightarrow> world \<Rightarrow> (error + bool) \<times> world" where
  "loadEKIAndCheckUpdateNeeded e now w =
     (case loadEKI e w of
        (Some r, w1) \<Rightarrow> (r, w1)
      | (None, w1) \<Rightarrow> checkActiveEKI e now w1)"

subsection \<open>\<^verbatim>\<open>selectNewEnclaveKey\<close>\<close>

fun statusAllowed :: "string \<Rightarrow> string list \<Rightarrow> bool" where
  "statusAllowed s [] = False"
| "statusAllowed s (status # rest) = (if s = status then True else statusAllowed s rest)"

definition validateISVEnclaveQuoteStatus :: "env \<Rightarrow> ISVEnclaveQuoteStatus \<Rightarrow> bool" where
  "validateISVEnclaveQuoteStatus e s =
     (if s = QuoteOK then True
      else statusAllowed (status_String s) (AllowedQuoteStatuses (config e)))"

definition validateAdvisoryIDs :: "env \<Rightarrow> string list \<Rightarrow> bool" where
  "validateAdvisoryIDs e ids =
     (if length ids = 0 then True
      else card (set ids - set (AllowedAdvisoryIds (config e))) = 0)"

text \<open>
  The body of the loop over the candidates has three exits: \<^verbatim>\<open>return nil, err\<close>,
  \<^verbatim>\<open>continue\<close> and \<^verbatim>\<open>return eki, nil\<close>.
\<close>

datatype verdict = Abort error | Skip | Accept

definition examine :: "env \<Rightarrow> time \<Rightarrow> EnclaveKeyInfo \<Rightarrow> verdict" where
  "examine e now eki =
     (case VerifyReport (iaslib e) (Report eki) (Signature eki) (SigningCert eki) now of
        Some err \<Rightarrow> Abort err
      | None \<Rightarrow>
          (case ParseAndValidateAVR (iaslib e) (Report eki) of
             Inl err \<Rightarrow> Abort err
           | Inr avr \<Rightarrow>
               if checkEKIUpdateNeeded e now eki then Skip
               else if \<not> validateISVEnclaveQuoteStatus e (ISVEnclaveQuoteStatus avr) then Skip
               else if \<not> validateAdvisoryIDs e (AdvisoryIDs avr) then Skip
               else Accept))"

fun selectLoop :: "env \<Rightarrow> time \<Rightarrow> EnclaveKeyInfo list \<Rightarrow> error + EnclaveKeyInfo" where
  "selectLoop e now [] = Inl ErrAllKeysNotAllowed"
| "selectLoop e now (eki # rest) =
     (case examine e now eki of
        Abort err \<Rightarrow> Inl err
      | Skip \<Rightarrow> selectLoop e now rest
      | Accept \<Rightarrow> Inr eki)"

definition selectNewEnclaveKey :: "env \<Rightarrow> time \<Rightarrow> error + EnclaveKeyInfo" where
  "selectNewEnclaveKey e now =
     (case AvailableEnclaveKeys (lcpServiceClient e) (GetMrenclave (config e)) of
        Inl err \<Rightarrow> Inl err
      | Inr keys \<Rightarrow>
          if length keys = 0 then Inl ErrNoAvailableEnclaveKeys
          else selectLoop e now keys)"

subsection \<open>\<^verbatim>\<open>registerEnclaveKey\<close>\<close>

fun containsOperator :: "address list \<Rightarrow> address \<Rightarrow> bool" where
  "containsOperator [] operator = False"
| "containsOperator (op # ops) operator =
     (if op = operator then True else containsOperator ops operator)"

text \<open>
  The block \<^verbatim>\<open>if pr.IsOperatorEnabled()\<close>: the operator's signature for the message, or the
  error that ends the registration.
\<close>

definition operatorSignature ::
  "env \<Rightarrow> EnclaveKeyInfo \<Rightarrow> ClientState \<Rightarrow> address \<Rightarrow> error + bytes option" where
  "operatorSignature e eki clientState expectedOperator =
     (if \<not> IsOperatorEnabled (eip712Signer e) then Inr None
      else
        (case GetSignerAddress (eip712Signer e) of
           Inl err \<Rightarrow> Inl err
         | Inr operator \<Rightarrow>
             if \<not> containsOperator (cs_Operators clientState) operator
             then Inl ErrOperatorNotIncluded
             else if expectedOperator \<noteq> 0 \<and> operator \<noteq> expectedOperator
             then Inl ErrOperatorMismatch
             else
               (case ComputeEIP712RegisterEnclaveKeyHash (eip712Signer e) (Report eki) of
                  Inl err \<Rightarrow> Inl err
                | Inr commitment \<Rightarrow>
                    (case Sign (eip712Signer e) commitment of
                       Inl err \<Rightarrow> Inl err
                     | Inr sig \<Rightarrow> Inr (Some sig)))))"

text \<open>
  \<^verbatim>\<open>clienttypes.NewMsgUpdateClient\<close> packs the client message and fails when the packing
  does.
\<close>

definition NewMsgUpdateClient ::
  "env \<Rightarrow> string \<Rightarrow> RegisterEnclaveKeyMessage \<Rightarrow> string \<Rightarrow> error + MsgUpdateClient" where
  "NewMsgUpdateClient e clientID message signer =
     (case PackClientMessage e message of
        Some err \<Rightarrow> Inl err
      | None \<Rightarrow> Inr \<lparr>ClientId = clientID, ClientMessage = message, Signer = signer\<rparr>)"

text \<open>The tail of the function, from \<^verbatim>\<open>counterparty.GetAddress()\<close> on.\<close>

definition submitMessage ::
  "env \<Rightarrow> RegisterEnclaveKeyMessage \<Rightarrow> world \<Rightarrow> (error + msg_id) \<times> world" where
  "submitMessage e message w =
     (case GetAddress (counterparty e) of
        Inl err \<Rightarrow> (Inl err, w)
      | Inr signer \<Rightarrow>
          (case NewMsgUpdateClient e (PathClientID (counterparty e)) message signer of
             Inl err \<Rightarrow> (Inl err, w)
           | Inr msg \<Rightarrow>
               (case SendMsgs (counterparty e) [msg] of
                  Inl err \<Rightarrow> (Inl err, w\<lparr>sent := sent w @ [[msg]]\<rparr>)
                | Inr ids \<Rightarrow>
                    (case ids of
                       [i] \<Rightarrow> (Inr i, w\<lparr>sent := sent w @ [[msg]]\<rparr>)
                     | _ \<Rightarrow> (Inl ErrUnexpectedNumberOfMsgIDs, w\<lparr>sent := sent w @ [[msg]]\<rparr>)))))"

text \<open>The client state of the counterparty, as the function fetches and casts it.\<close>

definition fetchClientState :: "env \<Rightarrow> error + ClientState" where
  "fetchClientState e =
     (case LatestHeight (counterparty e) of
        Inl err \<Rightarrow> Inl err
      | Inr cplatestHeight \<Rightarrow>
          (case QueryClientState (counterparty e) cplatestHeight of
             Inl err \<Rightarrow> Inl err
           | Inr any \<Rightarrow>
               (case UnpackAny e any of
                  Inl err \<Rightarrow> Inl (Wrapped ''failed to unpack client state'' err)
                | Inr (OtherClientState t) \<Rightarrow> Inl ErrCastClientState
                | Inr (LcpClientState clientState) \<Rightarrow> Inr clientState)))"

text \<open>The quote and the expected operator of a key's report.\<close>

definition reportQuote :: "env \<Rightarrow> time \<Rightarrow> EnclaveKeyInfo \<Rightarrow> error + Quote \<times> address" where
  "reportQuote e now eki =
     (case VerifyReport (iaslib e) (Report eki) (Signature eki) (SigningCert eki) now of
        Some err \<Rightarrow> Inl (Wrapped ''failed to verify AVR signature'' err)
      | None \<Rightarrow>
          (case ParseAndValidateAVR (iaslib e) (Report eki) of
             Inl err \<Rightarrow> Inl (Wrapped ''failed to parse and validate AVR'' err)
           | Inr avr \<Rightarrow>
               (case GetQuote avr of
                  Inl err \<Rightarrow> Inl (Wrapped ''failed to get quote from AVR'' err)
                | Inr quote \<Rightarrow>
                    (case GetEKAndOperator (iaslib e) quote of
                       Inl err \<Rightarrow> Inl (Wrapped ''failed to get EK and operator'' err)
                     | Inr (ek, expectedOperator) \<Rightarrow> Inr (quote, expectedOperator)))))"

definition registerEnclaveKey ::
  "env \<Rightarrow> time \<Rightarrow> EnclaveKeyInfo \<Rightarrow> world \<Rightarrow> (error + msg_id) \<times> world" where
  "registerEnclaveKey e now eki w =
     (case reportQuote e now eki of
        Inl err \<Rightarrow> (Inl err, w)
      | Inr (quote, expectedOperator) \<Rightarrow>
          (case fetchClientState e of
             Inl err \<Rightarrow> (Inl err, w)
           | Inr clientState \<Rightarrow>
               if cs_Mrenclave clientState \<noteq> MRENCLAVE quote then (Inl ErrMrenclaveMismatch, w)
               else
                 (case operatorSignature e eki clientState expectedOperator of
                    Inl err \<Rightarrow> (Inl err, w)
                  | Inr sig \<Rightarrow>
                      submitMessage e
                        \<lparr>msg_Report = Report eki, msg_Signature = Signature eki,
                         msg_SigningCert = SigningCert eki, msg_OperatorSignature = sig\<rparr> w)))"

subsection \<open>\<^verbatim>\<open>UpdateEKIfNeeded\<close>\<close>

text \<open>
  The second half of the function, entered when an update is needed: clear the memory,
  select a key, register it, probe the message and persist.
\<close>

definition acquireNewKey :: "env \<Rightarrow> time \<Rightarrow> world \<Rightarrow> error option \<times> world" where
  "acquireNewKey e now w0 =
     (let w = assign_both None None w0 in
      (case selectNewEnclaveKey e now of
         Inl err \<Rightarrow> (Some (Wrapped ''failed to call selectNewEnclaveKey'' err), w)
       | Inr eki \<Rightarrow>
           (case registerEnclaveKey e now eki w of
              (Inl err, w1) \<Rightarrow> (Some (Wrapped ''failed to call registerEnclaveKey'' err), w1)
            | (Inr msgID, w1) \<Rightarrow>
                (case checkMsgStatus e msgID of
                   Inl err \<Rightarrow> (Some (Wrapped ''failed to call checkMsgStatus'' err), w1)
                 | Inr (finalized, success) \<Rightarrow>
                     if \<not> success then (Some (ErrMsgExecutionFailed msgID), w1)
                     else if finalized then
                       (case saveFinalizedEnclaveKeyInfo e eki (db w1) of
                          Inl err \<Rightarrow> (Some err, w1)
                        | Inr db1 \<Rightarrow>
                            (None, assign_activeEnclaveKey (Some eki) (w1\<lparr>db := db1\<rparr>)))
                     else
                       (case saveUnfinalizedEnclaveKeyInfo e eki msgID (db w1) of
                          Inl err \<Rightarrow> (Some err, w1)
                        | Inr db1 \<Rightarrow>
                            (None,
                             assign_unfinalizedMsgID (Some msgID)
                               (assign_activeEnclaveKey (Some eki) (w1\<lparr>db := db1\<rparr>))))))))"

definition UpdateEKIfNeeded :: "env \<Rightarrow> time \<Rightarrow> world \<Rightarrow> error option \<times> world" where
  "UpdateEKIfNeeded e now w =
     (case loadEKIAndCheckUpdateNeeded e now w of
        (Inl err, w1) \<Rightarrow> (Some (Wrapped ''failed to call loadEKIAndCheckUpdateNeeded'' err), w1)
      | (Inr updateNeeded, w1) \<Rightarrow>
          if \<not> updateNeeded then (None, w1) else acquireNewKey e now w1)"

section \<open>The on-chain light client\<close>

record ConsensusState =
  StateId :: bytes
  Timestamp :: "64 word"

text \<open>
  The client's \<^verbatim>\<open>sdk.KVStore\<close>. Its keys are disjoint paths: the client state, one
  consensus state per height, and \<^verbatim>\<open>aux/enclave_keys/<address>\<close> holding the big-endian
  \<^verbatim>\<open>uint64\<close> of a key's expiration.
\<close>

record ClientStore =
  kv_clientState :: "ClientState option"
  kv_consensusStates :: "Height \<Rightarrow> ConsensusState option"
  kv_enclaveKeys :: "address \<Rightarrow> 64 word option"

datatype event = EventRegisteredEnclaveKey address time

record sdk_Context =
  BlockTime :: time
  Events :: "event list"

record ELCUpdateClientMessage =
  PrevHeight :: "Height option"
  PrevStateID :: "bytes option"
  PostHeight :: Height
  PostStateID :: bytes
  emsg_Timestamp :: nat

record UpdateClientMessage =
  ElcMessage :: bytes
  ucm_Signer :: bytes
  ucm_Signature :: bytes

text \<open>
  Modelled from the spec: the constant \<^verbatim>\<open>QuoteOK\<close> of the package \<^verbatim>\<open>types\<close> is not in the
  source file; the spec names the status \<^verbatim>\<open>OK\<close>.
\<close>

definition types_QuoteOK :: string where
  "types_QuoteOK = ''OK''"

text \<open>The zero \<^verbatim>\<open>time.Time{}\<close>: January 1 of year 1.\<close>

definition time_zero :: time where
  "time_zero = - 62135596800 * 1000000000"

definition getKeyExpiration :: "ClientState \<Rightarrow> duration" where
  "getKeyExpiration cs = cs_KeyExpiration cs * Second"

definition Contains :: "ClientStore \<Rightarrow> address \<Rightarrow> bool" where
  "Contains clientStore key = (kv_enclaveKeys clientStore key \<noteq> None)"

definition GetEnclaveKeyExpiredAt :: "ClientStore \<Rightarrow> address \<Rightarrow> time \<times> bool" where
  "GetEnclaveKeyExpiredAt clientStore key =
     (case kv_enclaveKeys clientStore key of
        None \<Rightarrow> (time_zero, False)
      | Some expiredAt \<Rightarrow> (time_Unix expiredAt, True))"

definition AddEnclaveKey :: "ClientStore \<Rightarrow> address \<Rightarrow> time \<Rightarrow> ClientStore" where
  "AddEnclaveKey clientStore key expiredAt =
     clientStore\<lparr>kv_enclaveKeys :=
       (kv_enclaveKeys clientStore)(key \<mapsto> time_UnixSeconds expiredAt)\<rparr>"

definition isAllowedStatus :: "ClientState \<Rightarrow> string \<Rightarrow> bool" where
  "isAllowedStatus cs status =
     (if status = types_QuoteOK then True
      else statusAllowed status (cs_AllowedQuoteStatuses cs))"

definition isAllowedAdvisoryIDs :: "ClientState \<Rightarrow> string list \<Rightarrow> bool" where
  "isAllowedAdvisoryIDs cs advIDs =
     (if length advIDs = 0 then True
      else list_all (\<lambda>i. i \<in> set (cs_AllowedAdvisoryIds cs)) advIDs)"

text \<open>
  The end of \<^verbatim>\<open>verifyRegisterEnclaveKey\<close>, from \<^verbatim>\<open>avr.Quote()\<close> on: the measurement and the
  check of an address that is already stored.
\<close>

definition verifyQuoteAndExpiration ::
  "ias \<Rightarrow> ClientState \<Rightarrow> ClientStore \<Rightarrow> AVR \<Rightarrow> error option" where
  "verifyQuoteAndExpiration lib cs store avr =
     (case GetQuote avr of
        Inl err \<Rightarrow> Some err
      | Inr quote \<Rightarrow>
          if cs_Mrenclave cs \<noteq> MRENCLAVE quote
          then Some (ErrInvalidHeader ''invalid AVR: mrenclave mismatch'')
          else
            (case GetEnclaveKeyAddress lib quote of
               Inl err \<Rightarrow> Some err
             | Inr addr \<Rightarrow>
                 (let expiredAt = time_Add (GetTimestamp avr) (getKeyExpiration cs) in
                  (case GetEnclaveKeyExpiredAt store addr of
                     (t, found) \<Rightarrow>
                       if found \<and> \<not> time_Equal t expiredAt
                       then Some (ErrInvalidHeader ''enclave key already exists'')
                       else None))))"

definition verifyRegisterEnclaveKey ::
  "ias \<Rightarrow> ClientState \<Rightarrow> sdk_Context \<Rightarrow> ClientStore \<Rightarrow> RegisterEnclaveKeyMessage \<Rightarrow> error option"
  where
  "verifyRegisterEnclaveKey lib cs ctx store message =
     (case VerifyReport lib (msg_Report message) (msg_Signature message)
             (msg_SigningCert message) (BlockTime ctx) of
        Some err \<Rightarrow> Some (ErrInvalidHeader ''invalid message'')
      | None \<Rightarrow>
          (case ParseAndValidateAVR lib (msg_Report message) of
             Inl err \<Rightarrow> Some (ErrInvalidHeader ''invalid AVR'')
           | Inr avr \<Rightarrow>
               (let quoteStatus = status_String (ISVEnclaveQuoteStatus avr) in
                if quoteStatus = types_QuoteOK then
                  (if length (AdvisoryIDs avr) \<noteq> 0
                   then Some (ErrInvalidHeader ''advisory IDs should be empty when status is OK'')
                   else verifyQuoteAndExpiration lib cs store avr)
                else
                  (if \<not> isAllowedStatus cs quoteStatus
                   then Some (ErrInvalidHeader ''disallowed quote status exists'')
                   else if \<not> isAllowedAdvisoryIDs cs (AdvisoryIDs avr)
                   then Some (ErrInvalidHeader ''disallowed advisory ID(s) exists'')
                   else verifyQuoteAndExpiration lib cs store avr))))"

text \<open>
  \<^verbatim>\<open>ClientState.registerEnclaveKey\<close>, the state update of a registration. A panic is the
  value \<open>Inl\<close>.
\<close>

definition cs_registerEnclaveKey ::
  "ias \<Rightarrow> ClientState \<Rightarrow> sdk_Context \<Rightarrow> ClientStore \<Rightarrow> RegisterEnclaveKeyMessage
     \<Rightarrow> error + sdk_Context \<times> ClientStore" where
  "cs_registerEnclaveKey lib cs ctx clientStore message =
     (case ParseAndValidateAVR lib (msg_Report message) of
        Inl err \<Rightarrow> Inl (ErrInvalidHeader ''invalid AVR'')
      | Inr avr \<Rightarrow>
          (case GetQuote avr of
             Inl err \<Rightarrow> Inl err
           | Inr quote \<Rightarrow>
               (case GetEnclaveKeyAddress lib quote of
                  Inl err \<Rightarrow> Inl err
                | Inr addr \<Rightarrow>
                    (let expiredAt = time_Add (GetTimestamp avr) (getKeyExpiration cs) in
                     if Contains clientStore addr
                     then Inr (ctx\<lparr>Events := Events ctx @ [EventRegisteredEnclaveKey addr expiredAt]\<rparr>,
                               clientStore)
                     else Inr (ctx, AddEnclaveKey clientStore addr expiredAt)))))"

text \<open>
  Modelled from the spec: \<^verbatim>\<open>setClientState\<close> is not in the source file; it persists the
  client state in the client's store.
\<close>

definition setClientState :: "ClientStore \<Rightarrow> ClientState \<Rightarrow> ClientStore" where
  "setClientState clientStore cs = clientStore\<lparr>kv_clientState := Some cs\<rparr>"

text \<open>
  Modelled from the spec: \<^verbatim>\<open>setConsensusState\<close> is not in the source file; it persists a
  consensus state at a height in the client's store.
\<close>

definition setConsensusState :: "ClientStore \<Rightarrow> ConsensusState \<Rightarrow> Height \<Rightarrow> ClientStore" where
  "setConsensusState clientStore consensusState height =
     clientStore\<lparr>kv_consensusStates := (kv_consensusStates clientStore)(height \<mapsto> consensusState)\<rparr>"

text \<open>
  \<^verbatim>\<open>updateClient\<close>; the decoder \<^verbatim>\<open>GetELCMessage\<close> of the message is a parameter, and the
  panic on its error is the value \<open>Inl\<close>.
\<close>

definition updateClient ::
  "(UpdateClientMessage \<Rightarrow> error + ELCUpdateClientMessage) \<Rightarrow> ClientState \<Rightarrow> ClientStore
     \<Rightarrow> UpdateClientMessage \<Rightarrow> error + ClientStore" where
  "updateClient GetELCMessage cs clientStore message =
     (case GetELCMessage message of
        Inl err \<Rightarrow> Inl err
      | Inr emsg \<Rightarrow>
          (let cs1 = (if Height_LT (cs_LatestHeight cs) (PostHeight emsg)
                      then cs\<lparr>cs_LatestHeight := PostHeight emsg\<rparr> else cs);
               consensusState =
                 \<lparr>StateId = PostStateID emsg, Timestamp = word_of_nat (emsg_Timestamp emsg)\<rparr>
           in Inr (setConsensusState (setClientState clientStore cs1) consensusState
                     (PostHeight emsg))))"

section \<open>Observing the memory of the prover\<close>

text \<open>
  The invariant of the two fields: an unfinalized message ID is set only when an active
  key is.
\<close>

definition mem_inv :: "EnclaveKeyInfo option \<times> msg_id option \<Rightarrow> bool" where
  "mem_inv m = (snd m \<noteq> None \<longrightarrow> fst m \<noteq> None)"

definition mem :: "world \<Rightarrow> EnclaveKeyInfo option \<times> msg_id option" where
  "mem w = (activeEnclaveKey w, unfinalizedMsgID w)"

text \<open>
  \<open>mem_steps w w'\<close>: from \<open>w\<close> to \<open>w'\<close> the trace grows by the values the memory took, each
  of them satisfies the invariant, and the memory of \<open>w'\<close> is the last of them (or that of
  \<open>w\<close> if there is none).
\<close>

definition mem_steps :: "world \<Rightarrow> world \<Rightarrow> bool" where
  "mem_steps w w' =
     (\<exists>ext. mem_trace w' = mem_trace w @ ext \<and> mem w' = last (mem w # ext)
        \<and> list_all mem_inv ext)"

section \<open>A concrete deployment for evaluation\<close>

text \<open>
  A toy attestation library: a report is three bytes (status, advisory, operator) and has
  the measurement \<open>[7]\<close>, or four bytes, the last being its measurement; a signature other
  than \<open>[1]\<close> does not verify.
\<close>

definition demo_parse :: "bytes \<Rightarrow> error + AVR" where
  "demo_parse r =
     (case r of
        [s, a, c] \<Rightarrow>
          Inr \<lparr>ISVEnclaveQuoteStatus = (if s = 0 then QuoteOK else QuoteGroupOutOfDate),
               AdvisoryIDs = (if a = 0 then [] else if a = 1 then [''INTEL-SA-00334'']
                              else [''INTEL-SA-00615'']),
               GetTimestamp = 1000 * 1000000000,
               GetQuote = Inr \<lparr>MRENCLAVE = [7], ReportData = [s, a, c]\<rparr>\<rparr>
      | [s, a, c, m] \<Rightarrow>
          Inr \<lparr>ISVEnclaveQuoteStatus = (if s = 0 then QuoteOK else QuoteGroupOutOfDate),
               AdvisoryIDs = (if a = 0 then [] else if a = 1 then [''INTEL-SA-00334'']
                              else [''INTEL-SA-00615'']),
               GetTimestamp = 1000 * 1000000000,
               GetQuote = Inr \<lparr>MRENCLAVE = [m], ReportData = [s, a, c]\<rparr>\<rparr>
      | _ \<Rightarrow> Inl (ErrExternal ''malformed AVR''))"

definition demo_ias :: ias where
  "demo_ias =
     \<lparr>VerifyReport = (\<lambda>r sg c t. if sg = [1] then None else Some (ErrExternal ''bad signature'')),
      ParseAndValidateAVR = demo_parse,
      GetEKAndOperator = (\<lambda>q. case ReportData q of
                                 [s, a, c] \<Rightarrow> Inr (ucast s * 256 + ucast a, ucast c)
                               | _ \<Rightarrow> Inl (ErrExternal ''bad report data'')),
      GetEnclaveKeyAddress = (\<lambda>q. case ReportData q of
                                 [s, a, c] \<Rightarrow> Inr (ucast s * 256 + ucast a)
                               | _ \<Rightarrow> Inl (ErrExternal ''bad report data''))\<rparr>"

definition demo_key :: "8 word \<Rightarrow> 8 word \<Rightarrow> 8 word \<Rightarrow> EnclaveKeyInfo" where
  "demo_key s a c =
     \<lparr>EnclaveKeyAddress = [s, a], AttestationTime = 1000, Report = [s, a, c],
      Signature = [1], SigningCert = []\<rparr>"

text \<open>A key of an enclave with another measurement.\<close>

definition demo_foreign_key :: EnclaveKeyInfo where
  "demo_foreign_key =
     \<lparr>EnclaveKeyAddress = [9, 9], AttestationTime = 1000, Report = [0, 0, 0, 9],
      Signature = [1], SigningCert = []\<rparr>"

definition demo_cs :: ClientState where
  "demo_cs =
     \<lparr>cs_LatestHeight = \<lparr>RevisionNumber = 0, RevisionHeight = 10\<rparr>,
      cs_Mrenclave = [7], cs_KeyExpiration = 3600, cs_AllowedQuoteStatuses = [],
      cs_AllowedAdvisoryIds = [''INTEL-SA-00334''], cs_Operators = [187]\<rparr>"

definition demo_chain :: Chain where
  "demo_chain =
     \<lparr>GetLatestFinalizedHeader = Inr \<lparr>RevisionNumber = 0, RevisionHeight = 60\<rparr>,
      GetMsgResult = (\<lambda>m. if m = 1
          then Inr \<lparr>Status = (True, []), BlockHeight = \<lparr>RevisionNumber = 0, RevisionHeight = 50\<rparr>\<rparr>
          else Inl (ErrExternal ''not found'')),
      LatestHeight = Inr \<lparr>RevisionNumber = 0, RevisionHeight = 100\<rparr>,
      QueryClientState = (\<lambda>h. Inr []),
      GetAddress = Inr ''relayer'',
      PathClientID = ''lcp-client-0'',
      SendMsgs = (\<lambda>msgs. Inr [1])\<rparr>"

definition demo_env :: "EnclaveKeyInfo list \<Rightarrow> env" where
  "demo_env keys =
     \<lparr>config = \<lparr>KeyExpiration = 3600, AllowedQuoteStatuses = [],
                 AllowedAdvisoryIds = [''INTEL-SA-00334''], GetMrenclave = [7]\<rparr>,
      lcpServiceClient =
        \<lparr>AvailableEnclaveKeys = (\<lambda>m. Inr keys),
         EnclaveKey = (\<lambda>a. case find (\<lambda>k. EnclaveKeyAddress k = a) keys of
                              None \<Rightarrow> Inl (ErrExternal ''enclave key not found'')
                            | Some k \<Rightarrow> Inr k)\<rparr>,
      counterparty = demo_chain,
      eip712Signer =
        \<lparr>IsOperatorEnabled = False, GetSignerAddress = Inr 187,
         ComputeEIP712RegisterEnclaveKeyHash = (\<lambda>r. Inr r), Sign = (\<lambda>h. Inr h)\<rparr>,
      iaslib = demo_ias,
      UnpackAny = (\<lambda>b. Inr (LcpClientState demo_cs)),
      PackClientMessage = (\<lambda>m. None),
      disk_fault = (\<lambda>op. False)\<rparr>"

definition demo_world :: "EnclaveKeyInfo option \<Rightarrow> msg_id option \<Rightarrow> world" where
  "demo_world k m =
     \<lparr>activeEnclaveKey = k, unfinalizedMsgID = m, mem_trace = [],
      db = \<lparr>finalized_recs = [],
            unfinalized_rec = (case (k, m) of (Some eki, Some i) \<Rightarrow> Some (eki, i) | _ \<Rightarrow> None)\<rparr>,
      sent = []\<rparr>"

definition demo_store :: ClientStore where
  "demo_store =
     \<lparr>kv_clientState = Some demo_cs,
      kv_consensusStates = (\<lambda>h. None),
      kv_enclaveKeys = (\<lambda>a. if a = 0 then Some 4600 else None)\<rparr>"

definition demo_ctx :: sdk_Context where
  "demo_ctx = \<lparr>BlockTime = 1100 * 1000000000, Events = []\<rparr>"

definition demo_message :: "EnclaveKeyInfo \<Rightarrow> RegisterEnclaveKeyMessage" where
  "demo_message k =
     \<lparr>msg_Report = Report k, msg_Signature = Signature k, msg_SigningCert = SigningCert k,
      msg_OperatorSignature = None\<rparr>"

text \<open>A toy decoder of update messages: the message is the one byte of its post height.\<close>

definition demo_emsg :: "8 word \<Rightarrow> ELCUpdateClientMessage" where
  "demo_emsg h =
     \<lparr>PrevHeight = None, PrevStateID = None,
      PostHeight = \<lparr>RevisionNumber = 0, RevisionHeight = ucast h\<rparr>,
      PostStateID = [9], emsg_Timestamp = 77\<rparr>"

definition demo_GetELCMessage :: "UpdateClientMessage \<Rightarrow> error + ELCUpdateClientMessage" where
  "demo_GetELCMessage m =
     (case ElcMessage m of
        [h] \<Rightarrow> Inr (demo_emsg h)
      | _ \<Rightarrow> Inl (ErrExternal ''malformed ELC message''))"

definition demo_update :: "8 word \<Rightarrow> UpdateClientMessage" where
  "demo_update h = \<lparr>ElcMessage = [h], ucm_Signer = [], ucm_Signature = []\<rparr>"

text \<open>The same deployment with operator signing enabled.\<close>

definition demo_env_operator :: "EnclaveKeyInfo list \<Rightarrow> env" where
  "demo_env_operator keys =
     (demo_env keys)\<lparr>eip712Signer :=
        (eip712Signer (demo_env keys))\<lparr>IsOperatorEnabled := True\<rparr>\<rparr>"

section \<open>Evaluation and arithmetic lemmas\<close>

lemmas demo_defs =
  demo_env_def demo_key_def demo_ias_def demo_parse_def demo_cs_def demo_chain_def demo_world_def
  demo_store_def demo_ctx_def demo_message_def demo_env_operator_def demo_foreign_key_def

lemmas time_defs =
  time_After_def time_Add_def time_Unix_def time_Equal_def duration_quot_def Second_def
  signed_divide_int_def signed_modulo_int_def time_UnixSeconds_def unixToInternal_def
  int64_def addSec_def Let_def

lemma stb_nat: "n < 2 ^ 63 \<Longrightarrow> signed_take_bit 63 (int n) = int n"
proof -
  assume a: "n < 2 ^ 63"
  have "int n < int (2 ^ 63)" using a by (rule iffD2 [OF of_nat_less_iff])
  then have "int n < 2 ^ 63" by simp
  moreover have "- (2 ^ 63) \<le> int n"
  proof -
    have "- (2 ^ 63 :: int) \<le> 0" by simp
    also have "0 \<le> int n" by simp
    finally show ?thesis .
  qed
  ultimately show ?thesis by (rule signed_take_bit_int_eq_self [rotated])
qed

lemma sint_small: "unat (w :: 64 word) < 2 ^ 63 \<Longrightarrow> sint w = int (unat w)"
proof -
  assume a: "unat w < 2 ^ 63"
  have "sint w = signed_take_bit 63 (uint w)" by (simp add: sint_uint)
  also have "uint w = int (unat w)" by simp
  also have "signed_take_bit 63 (int (unat w)) = int (unat w)" using a by (rule stb_nat)
  finally show ?thesis .
qed

lemma unat_mult_Second:
  "unat (w :: 64 word) * 1000000000 < 2 ^ 63 \<Longrightarrow> unat (w * Second) = unat w * 1000000000"
proof -
  assume a: "unat w * 1000000000 < 2 ^ 63"
  have "(2::nat) ^ 63 < 2 ^ 64" by simp
  with a have "unat w * 1000000000 < 2 ^ 64" by (rule less_trans)
  then have "unat w * unat Second < 2 ^ LENGTH(64)" by (simp add: Second_def)
  then have "unat (w * Second) = unat w * unat Second" by (rule iffD1 [OF unat_mult_lem])
  then show ?thesis by (simp add: Second_def)
qed

lemma sdiv_half: "(int n * 1000000000) sdiv 2 = int n * 500000000"
  by (simp add: signed_divide_int_def sgn_if)

lemma int64_id: "- (2 ^ 63) \<le> x \<Longrightarrow> x < 2 ^ 63 \<Longrightarrow> int64 x = x"
proof -
  assume a: "- (2 ^ 63) \<le> x" and b: "x < 2 ^ 63"
  have l: "LENGTH(64) - 1 = 63" by simp
  have "signed_take_bit 63 x = x" using a b by (rule signed_take_bit_int_eq_self)
  then show ?thesis unfolding int64_def sint_sbintrunc' l .
qed

lemma sdiv_nonneg: "0 \<le> a \<Longrightarrow> 0 < b \<Longrightarrow> (a::int) sdiv b = a div b"
  by (simp add: signed_divide_int_def sgn_if)

lemma smod_nonneg: "0 \<le> a \<Longrightarrow> 0 < b \<Longrightarrow> (a::int) smod b = a mod b"
  by (simp add: signed_modulo_int_def sgn_if)

lemma half_seconds:
  "(int n * 500000000) div 1000000000 = int n div 2"
  "(int n * 500000000) mod 1000000000 = (int n mod 2) * 500000000"
proof -
  have d: "(500000000 * int n) div (500000000 * 2) = int n div 2"
    by (rule div_mult_mult1) simp
  have m: "(500000000 * int n) mod (500000000 * 2) = 500000000 * (int n mod 2)"
    by (rule mult_mod_right [symmetric])
  have c: "int n * 500000000 = 500000000 * int n" by (rule mult.commute)
  have t: "(500000000::int) * 2 = 1000000000" by simp
  show "(int n * 500000000) div 1000000000 = int n div 2"
    using d unfolding c t .
  show "(int n * 500000000) mod 1000000000 = (int n mod 2) * 500000000"
    using m unfolding c t by (simp only: mult.commute)
qed

lemma two_halves: "(q::int) * 1000000000 + r * 500000000 = (2 * q + r) * 500000000"
  by (simp add: algebra_simps)

lemma time_Add_whole_seconds:
  assumes d: "sint d = int n * 500000000"
    and lo: "0 \<le> s + unixToInternal"
    and hi: "s + unixToInternal + int n div 2 < 2 ^ 63"
  shows "time_Add (s * 1000000000) d = s * 1000000000 + int n * 500000000"
proof -
  let ?q = "int n div 2" and ?r = "int n mod 2"
  have q: "sint d sdiv 1000000000 = ?q"
    unfolding d by (simp add: sdiv_nonneg half_seconds)
  have r: "sint d smod 1000000000 = ?r * 500000000"
    unfolding d by (simp add: smod_nonneg half_seconds)
  have r01: "?r = 0 \<or> ?r = 1" by presburger
  have q0: "0 \<le> ?q" by simp
  have "- (2 ^ 63) \<le> (0::int)" by simp
  also have "0 \<le> s + unixToInternal + ?q" using lo q0 by simp
  finally have "int64 (s + unixToInternal + ?q) = s + unixToInternal + ?q"
    using hi by (rule int64_id)
  then have a: "addSec (s + unixToInternal) ?q = s + unixToInternal + ?q"
    using q0 by (auto simp: addSec_def Let_def)
  have "time_Add (s * 1000000000) d = (s + ?q) * 1000000000 + ?r * 500000000"
    using r01 by (auto simp: time_Add_def Let_def q r a)
  also have "\<dots> = s * 1000000000 + (?q * 1000000000 + ?r * 500000000)"
    by (simp add: algebra_simps)
  also have "?q * 1000000000 + ?r * 500000000 = (2 * ?q + ?r) * 500000000"
    by (rule two_halves)
  also have "2 * ?q + ?r = int n" by simp
  finally show ?thesis .
qed


lemma updateTime_exact:
  assumes a: "unat (AttestationTime eki) + unat (KeyExpiration (config e)) div 2 + 62135596800
                < 2 ^ 63"
    and k: "unat (KeyExpiration (config e)) * 1000000000 < 2 ^ 63"
  shows "updateTime e eki =
     int (unat (AttestationTime eki)) * 1000000000
       + int (unat (KeyExpiration (config e))) * 500000000"
proof -
  let ?n = "unat (KeyExpiration (config e))"
  let ?A = "int (unat (AttestationTime eki))"
  let ?d = "duration_quot (KeyExpiration (config e) * Second) 2"
  have "unat (AttestationTime eki) \<le> unat (AttestationTime eki) + ?n div 2 + 62135596800"
    by simp
  then have a': "unat (AttestationTime eki) < 2 ^ 63" using a by (rule le_less_trans)
  have s1: "sint (AttestationTime eki) = ?A"
    using a' by (rule sint_small)
  have "int (unat (AttestationTime eki) + ?n div 2 + 62135596800) < int (2 ^ 63)"
    using a by (rule iffD2 [OF of_nat_less_iff])
  then have hi: "?A + unixToInternal + int ?n div 2 < 2 ^ 63"
    by (simp add: unixToInternal_def zdiv_int)
  have lo: "0 \<le> ?A + unixToInternal" by (simp add: unixToInternal_def)
  have "?A + unixToInternal \<le> ?A + unixToInternal + int ?n div 2" by simp
  then have hi0: "?A + unixToInternal < 2 ^ 63" using hi by (rule le_less_trans)
  have "- (2 ^ 63) \<le> (0::int)" by simp
  also note lo
  finally have w: "int64 (?A + unixToInternal) = ?A + unixToInternal"
    using hi0 by (rule int64_id)
  have tu: "time_Unix (AttestationTime eki) = ?A * 1000000000"
    unfolding time_Unix_def s1 w by simp
  have u: "unat (KeyExpiration (config e) * Second) = ?n * 1000000000"
    using k by (rule unat_mult_Second)
  have "unat (KeyExpiration (config e) * Second) < 2 ^ 63" using k u by simp
  then have "sint (KeyExpiration (config e) * Second)
      = int (unat (KeyExpiration (config e) * Second))"
    by (rule sint_small)
  then have s2: "sint (KeyExpiration (config e) * Second) = int ?n * 1000000000"
    using u by simp
  have "?n * 500000000 \<le> ?n * 1000000000" by simp
  then have h: "?n * 500000000 < 2 ^ 63" using k by (rule le_less_trans)
  have s3: "sint (word_of_int (int ?n * 500000000) :: 64 word) = int ?n * 500000000"
  proof -
    have e: "signed_take_bit 63 (int (?n * 500000000)) = int (?n * 500000000)"
      using h by (rule stb_nat)
    have l: "LENGTH(64) - 1 = 63" by simp
    have m: "int ?n * 500000000 = int (?n * 500000000)" by simp
    show ?thesis
      unfolding m sint_sbintrunc' l by (rule e)
  qed
  have sd: "sint ?d = int ?n * 500000000"
    unfolding duration_quot_def s2 sdiv_half by (rule s3)
  show ?thesis
    unfolding updateTime_def tu by (rule time_Add_whole_seconds [OF sd lo hi])
qed

text \<open>
  Where \<^verbatim>\<open>time.Unix\<close> wraps: an attestation time of \<open>2 ^ 63 - 62135596800\<close> seconds gives an
  instant far in the past, and the key counts as expired at any present time.
\<close>

lemma wrapped_attestation_time:
  "updateTime (demo_env []) ((demo_key 0 0 0)\<lparr>AttestationTime := 9223371974719179008\<rparr>)
     = (- (2 ^ 63) + 1800 - 62135596800) * 1000000000
   \<and> checkEKIUpdateNeeded (demo_env [(demo_key 0 0 0)\<lparr>AttestationTime := 9223371974719179008\<rparr>])
        1100000000000 ((demo_key 0 0 0)\<lparr>AttestationTime := 9223371974719179008\<rparr>)"
  by (simp add: checkEKIUpdateNeeded_def updateTime_def demo_defs time_defs)

lemma checkEKIUpdateNeeded_iff:
  "checkEKIUpdateNeeded e now eki \<longleftrightarrow>
     updateTime e eki < now \<or>
     (\<exists>err. EnclaveKey (lcpServiceClient e) (EnclaveKeyAddress eki) = Inl err)"
  by (simp add: checkEKIUpdateNeeded_def time_After_def split: sum.splits)

text \<open>
  Claim C5, as the code has it: for a finalized active key that the LCP service still knows,
  the rotation check reports no rotation at the instant \<open>updateTime\<close> itself and one second
  before it, and reports rotation at every instant strictly after it; \<open>updateTime\<close> is
  the attestation time plus half the key expiration, as long as the \<^verbatim>\<open>int64\<close> arithmetic
  of Go does not overflow: the key expiration in nanoseconds is below \<open>2 ^ 63\<close>, and the
  seconds of the threshold, counted from year 1 (that is, plus 62135596800), are below
  \<open>2 ^ 63\<close>.
\<close>

theorem rotation_strictly_after_half_life:
  assumes known: "EnclaveKey (lcpServiceClient e) (EnclaveKeyAddress eki) = Inr k"
  shows "\<not> checkEKIUpdateNeeded e (updateTime e eki) eki
       \<and> \<not> checkEKIUpdateNeeded e (updateTime e eki - 1000000000) eki
       \<and> (\<forall>now. updateTime e eki < now \<longrightarrow> checkEKIUpdateNeeded e now eki)
       \<and> (unat (AttestationTime eki) + unat (KeyExpiration (config e)) div 2 + 62135596800
              < 2 ^ 63
            \<and> unat (KeyExpiration (config e)) * 1000000000 < 2 ^ 63 \<longrightarrow>
          updateTime e eki =
            int (unat (AttestationTime eki)) * 1000000000
              + int (unat (KeyExpiration (config e))) * 500000000)"
  using known updateTime_exact [of eki e] by (simp add: checkEKIUpdateNeeded_iff)

theorem rotation_strictly_after_half_life_witness:
  "EnclaveKey (lcpServiceClient (demo_env [demo_key 0 0 0])) (EnclaveKeyAddress (demo_key 0 0 0))
      = Inr (demo_key 0 0 0)
   \<and> updateTime (demo_env [demo_key 0 0 0]) (demo_key 0 0 0) = 2800000000000
   \<and> \<not> checkEKIUpdateNeeded (demo_env [demo_key 0 0 0]) 2800000000000 (demo_key 0 0 0)
   \<and> \<not> checkEKIUpdateNeeded (demo_env [demo_key 0 0 0]) 2799000000000 (demo_key 0 0 0)
   \<and> checkEKIUpdateNeeded (demo_env [demo_key 0 0 0]) 2800000000001 (demo_key 0 0 0)"
proof -
  let ?e = "demo_env [demo_key 0 0 0]" and ?k = "demo_key 0 0 0"
  have h: "EnclaveKey (lcpServiceClient ?e) (EnclaveKeyAddress ?k) = Inr ?k"
    by (simp add: demo_defs)
  have u: "updateTime ?e ?k = 2800000000000"
    by (simp add: updateTime_def demo_defs time_defs)
  show ?thesis
    using h rotation_strictly_after_half_life [OF h] unfolding u by simp
qed

text \<open>
  The claim as stated fails: with attestation time 1000 s and key expiration 3600 s, at
  the instant 2800 s the check reports no rotation.
\<close>

theorem rotation_at_threshold_counterexample:
  "AttestationTime (demo_key 0 0 0) = 1000
   \<and> KeyExpiration (config (demo_env [demo_key 0 0 0])) = 3600
   \<and> \<not> checkEKIUpdateNeeded (demo_env [demo_key 0 0 0]) (2800 * 1000000000) (demo_key 0 0 0)"
  by (simp add: checkEKIUpdateNeeded_def updateTime_def demo_defs time_defs)

lemma loadEKI_active: "activeEnclaveKey w = Some eki \<Longrightarrow> loadEKI e w = (None, w)"
  by (simp add: loadEKI_def)

text \<open>
  Claim C4, as the code has it: for a finalized active key (no unfinalized message ID), the
  update-needed predicate returns true if and only if the LCP service no longer knows the
  key or now is strictly after \<open>updateTime\<close>; \<open>updateTime\<close> is the attestation time plus
  half the key expiration when the \<^verbatim>\<open>int64\<close> arithmetic of Go does not overflow (the key
  expiration in nanoseconds is below \<open>2 ^ 63\<close>, and the seconds of the threshold, counted
  from year 1, that is plus 62135596800, are below \<open>2 ^ 63\<close>); the policy of quote statuses
  and advisory IDs is not consulted, and nothing is written.
\<close>

theorem finalized_key_update_needed:
  assumes "activeEnclaveKey w = Some eki" and "unfinalizedMsgID w = None"
  shows "loadEKIAndCheckUpdateNeeded e now w =
           (Inr (updateTime e eki < now \<or>
                 (\<exists>err. EnclaveKey (lcpServiceClient e) (EnclaveKeyAddress eki) = Inl err)), w)
       \<and> (unat (AttestationTime eki) + unat (KeyExpiration (config e)) div 2 + 62135596800
              < 2 ^ 63
            \<and> unat (KeyExpiration (config e)) * 1000000000 < 2 ^ 63 \<longrightarrow>
          updateTime e eki =
            int (unat (AttestationTime eki)) * 1000000000
              + int (unat (KeyExpiration (config e))) * 500000000)"
  using assms updateTime_exact [of eki e]
  by (simp add: loadEKIAndCheckUpdateNeeded_def loadEKI_active checkActiveEKI_def
      checkEKIUpdateNeeded_iff)

theorem finalized_key_update_needed_witness:
  "activeEnclaveKey (demo_world (Some (demo_key 0 0 0)) None) = Some (demo_key 0 0 0)
   \<and> unfinalizedMsgID (demo_world (Some (demo_key 0 0 0)) None) = None
   \<and> loadEKIAndCheckUpdateNeeded (demo_env [demo_key 0 0 0]) 1100000000000
        (demo_world (Some (demo_key 0 0 0)) None)
      = (Inr False, demo_world (Some (demo_key 0 0 0)) None)
   \<and> loadEKIAndCheckUpdateNeeded (demo_env [demo_key 0 0 0]) 2800000000001
        (demo_world (Some (demo_key 0 0 0)) None)
      = (Inr True, demo_world (Some (demo_key 0 0 0)) None)
   \<and> loadEKIAndCheckUpdateNeeded (demo_env []) 1100000000000
        (demo_world (Some (demo_key 0 0 0)) None)
      = (Inr True, demo_world (Some (demo_key 0 0 0)) None)"
proof -
  let ?w = "demo_world (Some (demo_key 0 0 0)) None" and ?k = "demo_key 0 0 0"
  have a: "activeEnclaveKey ?w = Some ?k" by (simp add: demo_world_def)
  have m: "unfinalizedMsgID ?w = None" by (simp add: demo_world_def)
  have u: "updateTime (demo_env [demo_key 0 0 0]) ?k = 2800000000000"
    by (simp add: updateTime_def demo_defs time_defs)
  have u': "updateTime (demo_env []) ?k = 2800000000000"
    by (simp add: updateTime_def demo_defs time_defs)
  have k1: "EnclaveKey (lcpServiceClient (demo_env [?k])) (EnclaveKeyAddress ?k) = Inr ?k"
    by (simp add: demo_defs)
  have k2: "EnclaveKey (lcpServiceClient (demo_env [])) (EnclaveKeyAddress ?k)
      = Inl (ErrExternal ''enclave key not found'')"
    by (simp add: demo_defs)
  show ?thesis
    using a m
      finalized_key_update_needed [OF a m, of "demo_env [?k]" 1100000000000]
      finalized_key_update_needed [OF a m, of "demo_env [?k]" 2800000000001]
      finalized_key_update_needed [OF a m, of "demo_env []" 1100000000000]
    unfolding u u' k1 k2 by simp
qed

text \<open>
  The claim as stated fails: a key whose quote status the policy does not allow, not yet at
  its half-life and known to the LCP service, is not reported for update.
\<close>

theorem finalized_key_policy_counterexample:
  "ParseAndValidateAVR (iaslib (demo_env [demo_key 1 0 0])) (Report (demo_key 1 0 0))
     = Inr \<lparr>ISVEnclaveQuoteStatus = QuoteGroupOutOfDate, AdvisoryIDs = [],
            GetTimestamp = 1000000000000,
            GetQuote = Inr \<lparr>MRENCLAVE = [7], ReportData = [1, 0, 0]\<rparr>\<rparr>
   \<and> \<not> validateISVEnclaveQuoteStatus (demo_env [demo_key 1 0 0]) QuoteGroupOutOfDate
   \<and> unfinalizedMsgID (demo_world (Some (demo_key 1 0 0)) None) = None
   \<and> fst (loadEKIAndCheckUpdateNeeded (demo_env [demo_key 1 0 0]) 1100000000000
        (demo_world (Some (demo_key 1 0 0)) None)) = Inr False"
  by (simp add: loadEKIAndCheckUpdateNeeded_def loadEKI_def checkActiveEKI_def
      checkEKIUpdateNeeded_def updateTime_def validateISVEnclaveQuoteStatus_def
      demo_defs time_defs)

section \<open>Frame lemmas: what each step of the relayer leaves alone\<close>

lemma observe_fields [simp]:
  "activeEnclaveKey (observe w) = activeEnclaveKey w"
  "unfinalizedMsgID (observe w) = unfinalizedMsgID w"
  "db (observe w) = db w"
  "sent (observe w) = sent w"
  "mem_trace (observe w) = mem_trace w @ [(activeEnclaveKey w, unfinalizedMsgID w)]"
  by (simp_all add: observe_def)

lemma assign_activeEnclaveKey_fields [simp]:
  "activeEnclaveKey (assign_activeEnclaveKey k w) = k"
  "unfinalizedMsgID (assign_activeEnclaveKey k w) = unfinalizedMsgID w"
  "db (assign_activeEnclaveKey k w) = db w"
  "sent (assign_activeEnclaveKey k w) = sent w"
  "mem_trace (assign_activeEnclaveKey k w) = mem_trace w @ [(k, unfinalizedMsgID w)]"
  by (simp_all add: assign_activeEnclaveKey_def)

lemma assign_unfinalizedMsgID_fields [simp]:
  "activeEnclaveKey (assign_unfinalizedMsgID m w) = activeEnclaveKey w"
  "unfinalizedMsgID (assign_unfinalizedMsgID m w) = m"
  "db (assign_unfinalizedMsgID m w) = db w"
  "sent (assign_unfinalizedMsgID m w) = sent w"
  "mem_trace (assign_unfinalizedMsgID m w) = mem_trace w @ [(activeEnclaveKey w, m)]"
  by (simp_all add: assign_unfinalizedMsgID_def)

lemma assign_both_fields [simp]:
  "activeEnclaveKey (assign_both k m w) = k"
  "unfinalizedMsgID (assign_both k m w) = m"
  "db (assign_both k m w) = db w"
  "sent (assign_both k m w) = sent w"
  "mem_trace (assign_both k m w) = mem_trace w @ [(k, m)]"
  by (simp_all add: assign_both_def)

lemma loadEKI_sent: "loadEKI e w = (r, w') \<Longrightarrow> sent w' = sent w"
  by (auto simp: loadEKI_def split: if_splits sum.splits prod.splits)

lemma finalizedBranch_sent: "finalizedBranch e now eki w = (r, w') \<Longrightarrow> sent w' = sent w"
  by (auto simp: finalizedBranch_def split: if_splits sum.splits)

lemma checkActiveEKI_sent: "checkActiveEKI e now w = (r, w') \<Longrightarrow> sent w' = sent w"
  by (auto simp: checkActiveEKI_def split: if_splits sum.splits option.splits prod.splits
      dest: finalizedBranch_sent)

lemma loadEKIAndCheckUpdateNeeded_sent:
  assumes "loadEKIAndCheckUpdateNeeded e now w = (r, w')"
  shows "sent w' = sent w"
proof (cases "loadEKI e w")
  case (Pair early w1)
  then have s1: "sent w1 = sent w" by (rule loadEKI_sent)
  show ?thesis
  proof (cases early)
    case None
    with Pair assms have "checkActiveEKI e now w1 = (r, w')"
      by (simp add: loadEKIAndCheckUpdateNeeded_def)
    then have "sent w' = sent w1" by (rule checkActiveEKI_sent)
    with s1 show ?thesis by simp
  next
    case (Some x)
    with Pair assms have "w' = w1" by (simp add: loadEKIAndCheckUpdateNeeded_def)
    with s1 show ?thesis by simp
  qed
qed

lemma submitMessage_frame:
  "submitMessage e m w = (r, w') \<Longrightarrow>
     ((\<exists>err. r = Inl err) \<and> w' = w)
     \<or> (\<exists>msg. w' = w\<lparr>sent := sent w @ [[msg]]\<rparr> \<and> ClientMessage msg = m)"
  by (auto simp: submitMessage_def NewMsgUpdateClient_def
      split: sum.splits option.splits list.splits)

lemma registerEnclaveKey_frame:
  "registerEnclaveKey e now eki w = (r, w') \<Longrightarrow>
     ((\<exists>err. r = Inl err) \<and> w' = w)
     \<or> (\<exists>msg. w' = w\<lparr>sent := sent w @ [[msg]]\<rparr> \<and> msg_Report (ClientMessage msg) = Report eki)"
  by (auto simp: registerEnclaveKey_def split: sum.splits prod.splits if_splits
      dest!: submitMessage_frame)

lemma acquireNewKey_sent:
  "acquireNewKey e now w = (r, w') \<Longrightarrow>
     sent w' = sent w
     \<or> (\<exists>k msg. selectNewEnclaveKey e now = Inr k \<and> sent w' = sent w @ [[msg]]
                 \<and> msg_Report (ClientMessage msg) = Report k)"
  by (auto simp: acquireNewKey_def Let_def split: sum.splits prod.splits if_splits
      dest!: registerEnclaveKey_frame)

lemma UpdateEKIfNeeded_sent:
  assumes "UpdateEKIfNeeded e now w = (r, w')"
  shows "sent w' = sent w
     \<or> (\<exists>k msg. selectNewEnclaveKey e now = Inr k \<and> sent w' = sent w @ [[msg]]
                 \<and> msg_Report (ClientMessage msg) = Report k)"
proof (cases "loadEKIAndCheckUpdateNeeded e now w")
  case (Pair res w1)
  then have s1: "sent w1 = sent w" by (rule loadEKIAndCheckUpdateNeeded_sent)
  show ?thesis
  proof (cases res)
    case (Inl err)
    with Pair assms have "w' = w1" by (simp add: UpdateEKIfNeeded_def)
    with s1 show ?thesis by simp
  next
    case (Inr updateNeeded)
    show ?thesis
    proof (cases updateNeeded)
      case False
      with Inr Pair assms have "w' = w1" by (simp add: UpdateEKIfNeeded_def)
      with s1 show ?thesis by simp
    next
      case True
      with Inr Pair assms have "acquireNewKey e now w1 = (r, w')"
        by (simp add: UpdateEKIfNeeded_def)
      from acquireNewKey_sent [OF this] s1 show ?thesis by simp
    qed
  qed
qed

section \<open>Candidate selection\<close>

lemma selectLoop_skip:
  "\<forall>j\<in>set pre. examine e now j = Skip \<Longrightarrow>
     selectLoop e now (pre @ rest) = selectLoop e now rest"
  by (induction pre) simp_all

lemma selectLoop_Inr:
  "selectLoop e now keys = Inr k \<Longrightarrow>
     \<exists>pre post. keys = pre @ k # post \<and> (\<forall>j\<in>set pre. examine e now j = Skip)
        \<and> examine e now k = Accept"
proof (induction keys)
  case Nil
  then show ?case by simp
next
  case (Cons x xs)
  show ?case
  proof (cases "examine e now x")
    case (Abort err)
    with Cons.prems show ?thesis by simp
  next
    case Skip
    with Cons.prems have "selectLoop e now xs = Inr k" by simp
    from Cons.IH [OF this] obtain pre post where
      "xs = pre @ k # post" "\<forall>j\<in>set pre. examine e now j = Skip" "examine e now k = Accept"
      by blast
    with Skip have "x # xs = (x # pre) @ k # post
        \<and> (\<forall>j\<in>set (x # pre). examine e now j = Skip) \<and> examine e now k = Accept"
      by simp
    then show ?thesis by blast
  next
    case Accept
    with Cons.prems have "x = k" by simp
    with Accept have "x # xs = [] @ k # xs \<and> (\<forall>j\<in>set []. examine e now j = Skip)
        \<and> examine e now k = Accept"
      by simp
    then show ?thesis by blast
  qed
qed

lemma selectLoop_Inl:
  "selectLoop e now keys = Inl err \<Longrightarrow>
     ((\<forall>j\<in>set keys. examine e now j = Skip) \<and> err = ErrAllKeysNotAllowed)
     \<or> (\<exists>pre k post. keys = pre @ k # post \<and> (\<forall>j\<in>set pre. examine e now j = Skip)
           \<and> examine e now k = Abort err)"
proof (induction keys)
  case Nil
  then show ?case by simp
next
  case (Cons x xs)
  show ?case
  proof (cases "examine e now x")
    case (Abort err')
    with Cons.prems have "err' = err" by simp
    with Abort have "x # xs = [] @ x # xs \<and> (\<forall>j\<in>set []. examine e now j = Skip)
        \<and> examine e now x = Abort err"
      by simp
    then show ?thesis by blast
  next
    case Skip
    with Cons.prems have "selectLoop e now xs = Inl err" by simp
    from Cons.IH [OF this] show ?thesis
    proof
      assume "(\<forall>j\<in>set xs. examine e now j = Skip) \<and> err = ErrAllKeysNotAllowed"
      with Skip show ?thesis by simp
    next
      assume "\<exists>pre k post. xs = pre @ k # post \<and> (\<forall>j\<in>set pre. examine e now j = Skip)
           \<and> examine e now k = Abort err"
      then obtain pre k post where
        "xs = pre @ k # post" "\<forall>j\<in>set pre. examine e now j = Skip"
        "examine e now k = Abort err"
        by blast
      with Skip have "x # xs = (x # pre) @ k # post
          \<and> (\<forall>j\<in>set (x # pre). examine e now j = Skip) \<and> examine e now k = Abort err"
        by simp
      then show ?thesis by blast
    qed
  next
    case Accept
    with Cons.prems show ?thesis by simp
  qed
qed

lemma selectLoop_all_skipped:
  "\<forall>j\<in>set keys. examine e now j = Skip \<Longrightarrow> selectLoop e now keys = Inl ErrAllKeysNotAllowed"
  using selectLoop_skip [of keys e now "[]"] by simp

lemma selectNewEnclaveKey_keys:
  "AvailableEnclaveKeys (lcpServiceClient e) (GetMrenclave (config e)) = Inr keys \<Longrightarrow>
     selectNewEnclaveKey e now =
       (if keys = [] then Inl ErrNoAvailableEnclaveKeys else selectLoop e now keys)"
  by (simp add: selectNewEnclaveKey_def)

lemma examine_cases:
  "examine e now k =
     (case VerifyReport (iaslib e) (Report k) (Signature k) (SigningCert k) now of
        Some err \<Rightarrow> Abort err
      | None \<Rightarrow>
          (case ParseAndValidateAVR (iaslib e) (Report k) of
             Inl err \<Rightarrow> Abort err
           | Inr avr \<Rightarrow>
               if checkEKIUpdateNeeded e now k
                  \<or> \<not> validateISVEnclaveQuoteStatus e (ISVEnclaveQuoteStatus avr)
                  \<or> \<not> validateAdvisoryIDs e (AdvisoryIDs avr)
               then Skip else Accept))"
  by (simp add: examine_def split: option.splits sum.splits)

lemma selected_iff:
  assumes "AvailableEnclaveKeys (lcpServiceClient e) (GetMrenclave (config e)) = Inr keys"
  shows "selectNewEnclaveKey e now = Inr k \<longleftrightarrow>
           (\<exists>pre post. keys = pre @ k # post \<and> (\<forall>j\<in>set pre. examine e now j = Skip)
               \<and> examine e now k = Accept)"
proof
  assume "selectNewEnclaveKey e now = Inr k"
  with assms have "selectLoop e now keys = Inr k"
    by (simp add: selectNewEnclaveKey_keys split: if_splits)
  then show "\<exists>pre post. keys = pre @ k # post \<and> (\<forall>j\<in>set pre. examine e now j = Skip)
               \<and> examine e now k = Accept"
    by (rule selectLoop_Inr)
next
  assume "\<exists>pre post. keys = pre @ k # post \<and> (\<forall>j\<in>set pre. examine e now j = Skip)
               \<and> examine e now k = Accept"
  then obtain pre post where k: "keys = pre @ k # post"
    and s: "\<forall>j\<in>set pre. examine e now j = Skip" and a: "examine e now k = Accept"
    by blast
  have "selectLoop e now keys = selectLoop e now (k # post)"
    unfolding k using s by (rule selectLoop_skip)
  with a have "selectLoop e now keys = Inr k" by simp
  moreover from k have "keys \<noteq> []" by simp
  ultimately show "selectNewEnclaveKey e now = Inr k"
    using assms by (simp add: selectNewEnclaveKey_keys)
qed

lemma failed_iff:
  assumes "AvailableEnclaveKeys (lcpServiceClient e) (GetMrenclave (config e)) = Inr keys"
  shows "selectNewEnclaveKey e now = Inl err \<longleftrightarrow>
           (keys = [] \<and> err = ErrNoAvailableEnclaveKeys)
           \<or> (keys \<noteq> [] \<and> (\<forall>j\<in>set keys. examine e now j = Skip) \<and> err = ErrAllKeysNotAllowed)
           \<or> (\<exists>pre k post. keys = pre @ k # post \<and> (\<forall>j\<in>set pre. examine e now j = Skip)
                 \<and> examine e now k = Abort err)"
    (is "?L \<longleftrightarrow> ?A \<or> ?B \<or> ?C")
proof
  assume l: ?L
  show "?A \<or> ?B \<or> ?C"
  proof (cases "keys = []")
    case True
    with l assms show ?thesis by (simp add: selectNewEnclaveKey_keys)
  next
    case False
    with l assms have "selectLoop e now keys = Inl err" by (simp add: selectNewEnclaveKey_keys)
    from selectLoop_Inl [OF this] False show ?thesis by blast
  qed
next
  assume r: "?A \<or> ?B \<or> ?C"
  then consider (a) ?A | (b) ?B | (c) ?C by blast
  then show ?L
  proof cases
    case a
    with assms show ?thesis by (simp add: selectNewEnclaveKey_keys)
  next
    case b
    then have "selectLoop e now keys = Inl ErrAllKeysNotAllowed"
      by (simp add: selectLoop_all_skipped)
    with b assms show ?thesis by (simp add: selectNewEnclaveKey_keys)
  next
    case c
    then obtain pre k post where k: "keys = pre @ k # post"
      and s: "\<forall>j\<in>set pre. examine e now j = Skip" and a: "examine e now k = Abort err"
      by blast
    have "selectLoop e now keys = selectLoop e now (k # post)"
      unfolding k using s by (rule selectLoop_skip)
    with a have "selectLoop e now keys = Inl err" by simp
    moreover from k have "keys \<noteq> []" by simp
    ultimately show ?thesis using assms by (simp add: selectNewEnclaveKey_keys)
  qed
qed

lemma examine_accepts:
  "VerifyReport (iaslib e) (Report k) (Signature k) (SigningCert k) now = None \<Longrightarrow>
   ParseAndValidateAVR (iaslib e) (Report k) = Inr avr \<Longrightarrow>
   \<not> checkEKIUpdateNeeded e now k \<Longrightarrow>
   validateISVEnclaveQuoteStatus e (ISVEnclaveQuoteStatus avr) \<Longrightarrow>
   validateAdvisoryIDs e (AdvisoryIDs avr) \<Longrightarrow>
   examine e now k = Accept"
  by (simp add: examine_def)

lemma registerEnclaveKey_mrenclave_mismatch:
  "reportQuote e now k = Inr (quote, expectedOperator) \<Longrightarrow>
   fetchClientState e = Inr clientState \<Longrightarrow>
   cs_Mrenclave clientState \<noteq> MRENCLAVE quote \<Longrightarrow>
   registerEnclaveKey e now k w = (Inl ErrMrenclaveMismatch, w)"
  by (simp add: registerEnclaveKey_def)

text \<open>
  Claim C3, as the code has it: the candidates are requested from the LCP service by the
  configured MRENCLAVE and examined in the order returned. A candidate whose report fails
  verification or parsing is not skipped: it ends the selection with that error, and no
  later candidate is considered. A candidate whose report verifies and parses but which
  fails one of the policy checks of the selection (expired or unknown to the LCP service,
  quote status, advisory IDs) is skipped and the next one is considered; the first candidate
  that passes these checks is selected. The MRENCLAVE of a candidate's quote is not among
  the checks of the selection: a candidate passes whatever its quote is, and a measurement
  that differs from the on-chain client state is found by \<^verbatim>\<open>registerEnclaveKey\<close>, which
  then fails before any submission. An empty list, or a list exhausted by skipping, gives a
  no-available-key error. Whatever a tick submits on chain is the one message of the
  selected key.
\<close>

theorem candidate_selection:
  assumes "AvailableEnclaveKeys (lcpServiceClient e) (GetMrenclave (config e)) = Inr keys"
  shows "(\<forall>k. selectNewEnclaveKey e now = Inr k \<longleftrightarrow>
            (\<exists>pre post. keys = pre @ k # post \<and> (\<forall>j\<in>set pre. examine e now j = Skip)
               \<and> examine e now k = Accept))
       \<and> (\<forall>err. selectNewEnclaveKey e now = Inl err \<longleftrightarrow>
            (keys = [] \<and> err = ErrNoAvailableEnclaveKeys)
            \<or> (keys \<noteq> [] \<and> (\<forall>j\<in>set keys. examine e now j = Skip) \<and> err = ErrAllKeysNotAllowed)
            \<or> (\<exists>pre k post. keys = pre @ k # post \<and> (\<forall>j\<in>set pre. examine e now j = Skip)
                  \<and> examine e now k = Abort err))
       \<and> (\<forall>k. examine e now k =
            (case VerifyReport (iaslib e) (Report k) (Signature k) (SigningCert k) now of
               Some err \<Rightarrow> Abort err
             | None \<Rightarrow>
                 (case ParseAndValidateAVR (iaslib e) (Report k) of
                    Inl err \<Rightarrow> Abort err
                  | Inr avr \<Rightarrow>
                      if checkEKIUpdateNeeded e now k
                         \<or> \<not> validateISVEnclaveQuoteStatus e (ISVEnclaveQuoteStatus avr)
                         \<or> \<not> validateAdvisoryIDs e (AdvisoryIDs avr)
                      then Skip else Accept)))
       \<and> (\<forall>k avr.
            VerifyReport (iaslib e) (Report k) (Signature k) (SigningCert k) now = None
            \<and> ParseAndValidateAVR (iaslib e) (Report k) = Inr avr
            \<and> \<not> checkEKIUpdateNeeded e now k
            \<and> validateISVEnclaveQuoteStatus e (ISVEnclaveQuoteStatus avr)
            \<and> validateAdvisoryIDs e (AdvisoryIDs avr) \<longrightarrow>
            examine e now k = Accept)
       \<and> (\<forall>k quote expectedOperator clientState w.
            reportQuote e now k = Inr (quote, expectedOperator)
            \<and> fetchClientState e = Inr clientState
            \<and> cs_Mrenclave clientState \<noteq> MRENCLAVE quote \<longrightarrow>
            registerEnclaveKey e now k w = (Inl ErrMrenclaveMismatch, w))
       \<and> (\<forall>w r w'. UpdateEKIfNeeded e now w = (r, w') \<longrightarrow>
            sent w' = sent w
            \<or> (\<exists>k msg. selectNewEnclaveKey e now = Inr k \<and> sent w' = sent w @ [[msg]]
                  \<and> msg_Report (ClientMessage msg) = Report k))"
proof (intro conjI allI impI)
  fix k
  show "selectNewEnclaveKey e now = Inr k \<longleftrightarrow>
            (\<exists>pre post. keys = pre @ k # post \<and> (\<forall>j\<in>set pre. examine e now j = Skip)
               \<and> examine e now k = Accept)"
    using assms by (rule selected_iff)
next
  fix err
  show "selectNewEnclaveKey e now = Inl err \<longleftrightarrow>
            (keys = [] \<and> err = ErrNoAvailableEnclaveKeys)
            \<or> (keys \<noteq> [] \<and> (\<forall>j\<in>set keys. examine e now j = Skip) \<and> err = ErrAllKeysNotAllowed)
            \<or> (\<exists>pre k post. keys = pre @ k # post \<and> (\<forall>j\<in>set pre. examine e now j = Skip)
                  \<and> examine e now k = Abort err)"
    using assms by (rule failed_iff)
next
  fix k
  show "examine e now k =
            (case VerifyReport (iaslib e) (Report k) (Signature k) (SigningCert k) now of
               Some err \<Rightarrow> Abort err
             | None \<Rightarrow>
                 (case ParseAndValidateAVR (iaslib e) (Report k) of
                    Inl err \<Rightarrow> Abort err
                  | Inr avr \<Rightarrow>
                      if checkEKIUpdateNeeded e now k
                         \<or> \<not> validateISVEnclaveQuoteStatus e (ISVEnclaveQuoteStatus avr)
                         \<or> \<not> validateAdvisoryIDs e (AdvisoryIDs avr)
                      then Skip else Accept))"
    by (rule examine_cases)
next
  fix k avr
  assume "VerifyReport (iaslib e) (Report k) (Signature k) (SigningCert k) now = None
            \<and> ParseAndValidateAVR (iaslib e) (Report k) = Inr avr
            \<and> \<not> checkEKIUpdateNeeded e now k
            \<and> validateISVEnclaveQuoteStatus e (ISVEnclaveQuoteStatus avr)
            \<and> validateAdvisoryIDs e (AdvisoryIDs avr)"
  then show "examine e now k = Accept" by (simp add: examine_accepts)
next
  fix k quote expectedOperator clientState w
  assume "reportQuote e now k = Inr (quote, expectedOperator)
            \<and> fetchClientState e = Inr clientState
            \<and> cs_Mrenclave clientState \<noteq> MRENCLAVE quote"
  then show "registerEnclaveKey e now k w = (Inl ErrMrenclaveMismatch, w)"
    by (simp add: registerEnclaveKey_mrenclave_mismatch)
next
  fix w r w'
  assume "UpdateEKIfNeeded e now w = (r, w')"
  then show "sent w' = sent w
            \<or> (\<exists>k msg. selectNewEnclaveKey e now = Inr k \<and> sent w' = sent w @ [[msg]]
                  \<and> msg_Report (ClientMessage msg) = Report k)"
    by (rule UpdateEKIfNeeded_sent)
qed

lemmas select_defs =
  selectNewEnclaveKey_def examine_def validateISVEnclaveQuoteStatus_def validateAdvisoryIDs_def
  checkEKIUpdateNeeded_def updateTime_def

lemmas register_defs =
  registerEnclaveKey_def reportQuote_def fetchClientState_def operatorSignature_def
  submitMessage_def NewMsgUpdateClient_def

theorem candidate_selection_witness:
  "AvailableEnclaveKeys (lcpServiceClient (demo_env [demo_key 1 0 0, demo_key 0 2 0, demo_key 0 0 0]))
      (GetMrenclave (config (demo_env [demo_key 1 0 0, demo_key 0 2 0, demo_key 0 0 0])))
     = Inr [demo_key 1 0 0, demo_key 0 2 0, demo_key 0 0 0]
   \<and> examine (demo_env [demo_key 1 0 0, demo_key 0 2 0, demo_key 0 0 0]) 1100000000000
        (demo_key 1 0 0) = Skip
   \<and> examine (demo_env [demo_key 1 0 0, demo_key 0 2 0, demo_key 0 0 0]) 1100000000000
        (demo_key 0 2 0) = Skip
   \<and> examine (demo_env [demo_key 1 0 0, demo_key 0 2 0, demo_key 0 0 0]) 1100000000000
        (demo_key 0 0 0) = Accept
   \<and> selectNewEnclaveKey (demo_env [demo_key 1 0 0, demo_key 0 2 0, demo_key 0 0 0])
        1100000000000 = Inr (demo_key 0 0 0)
   \<and> AvailableEnclaveKeys (lcpServiceClient (demo_env [demo_foreign_key, demo_key 0 0 0]))
        (GetMrenclave (config (demo_env [demo_foreign_key, demo_key 0 0 0])))
     = Inr [demo_foreign_key, demo_key 0 0 0]
   \<and> reportQuote (demo_env [demo_foreign_key, demo_key 0 0 0]) 1100000000000 demo_foreign_key
     = Inr (\<lparr>MRENCLAVE = [9], ReportData = [0, 0, 0]\<rparr>, 0)
   \<and> fetchClientState (demo_env [demo_foreign_key, demo_key 0 0 0]) = Inr demo_cs
   \<and> cs_Mrenclave demo_cs = [7]
   \<and> examine (demo_env [demo_foreign_key, demo_key 0 0 0]) 1100000000000 demo_foreign_key
     = Accept
   \<and> selectNewEnclaveKey (demo_env [demo_foreign_key, demo_key 0 0 0]) 1100000000000
     = Inr demo_foreign_key
   \<and> registerEnclaveKey (demo_env [demo_foreign_key, demo_key 0 0 0]) 1100000000000
        demo_foreign_key (demo_world None None)
     = (Inl ErrMrenclaveMismatch, demo_world None None)"
proof -
  let ?keys = "[demo_key 1 0 0, demo_key 0 2 0, demo_key 0 0 0]"
  let ?e = "demo_env ?keys"
  let ?keys2 = "[demo_foreign_key, demo_key 0 0 0]"
  let ?e2 = "demo_env ?keys2"
  let ?avr = "\<lparr>ISVEnclaveQuoteStatus = QuoteOK, AdvisoryIDs = [], GetTimestamp = 1000000000000,
            GetQuote = Inr \<lparr>MRENCLAVE = [9], ReportData = [0, 0, 0]\<rparr>\<rparr>"
  have h: "AvailableEnclaveKeys (lcpServiceClient ?e) (GetMrenclave (config ?e)) = Inr ?keys"
    by (simp add: demo_env_def)
  have x1: "examine ?e 1100000000000 (demo_key 1 0 0) = Skip"
    by (simp add: select_defs demo_defs time_defs)
  have x2: "examine ?e 1100000000000 (demo_key 0 2 0) = Skip"
    by (simp add: select_defs demo_defs time_defs)
  have x3: "examine ?e 1100000000000 (demo_key 0 0 0) = Accept"
    by (simp add: select_defs demo_defs time_defs)
  have split: "?keys = [demo_key 1 0 0, demo_key 0 2 0] @ demo_key 0 0 0 # []
      \<and> (\<forall>j\<in>set [demo_key 1 0 0, demo_key 0 2 0]. examine ?e 1100000000000 j = Skip)
      \<and> examine ?e 1100000000000 (demo_key 0 0 0) = Accept"
    using x1 x2 x3 by simp
  from candidate_selection [OF h, of 1100000000000]
  have "selectNewEnclaveKey ?e 1100000000000 = Inr (demo_key 0 0 0) \<longleftrightarrow>
      (\<exists>pre post. ?keys = pre @ demo_key 0 0 0 # post
         \<and> (\<forall>j\<in>set pre. examine ?e 1100000000000 j = Skip)
         \<and> examine ?e 1100000000000 (demo_key 0 0 0) = Accept)"
    by blast
  with split have s1: "selectNewEnclaveKey ?e 1100000000000 = Inr (demo_key 0 0 0)"
    by blast
  have h2: "AvailableEnclaveKeys (lcpServiceClient ?e2) (GetMrenclave (config ?e2)) = Inr ?keys2"
    by (simp add: demo_env_def)
  note T = candidate_selection [OF h2, of 1100000000000]
  have v: "VerifyReport (iaslib ?e2) (Report demo_foreign_key) (Signature demo_foreign_key)
      (SigningCert demo_foreign_key) 1100000000000 = None"
    by (simp add: demo_defs)
  have p: "ParseAndValidateAVR (iaslib ?e2) (Report demo_foreign_key) = Inr ?avr"
    by (simp add: demo_defs)
  have c: "\<not> checkEKIUpdateNeeded ?e2 1100000000000 demo_foreign_key"
    by (simp add: checkEKIUpdateNeeded_def updateTime_def demo_defs time_defs)
  have q: "validateISVEnclaveQuoteStatus ?e2 (ISVEnclaveQuoteStatus ?avr)"
    by (simp add: validateISVEnclaveQuoteStatus_def)
  have a: "validateAdvisoryIDs ?e2 (AdvisoryIDs ?avr)"
    by (simp add: validateAdvisoryIDs_def)
  from T v p c q a have y1: "examine ?e2 1100000000000 demo_foreign_key = Accept"
    by blast
  then have "?keys2 = [] @ demo_foreign_key # [demo_key 0 0 0]
      \<and> (\<forall>j\<in>set []. examine ?e2 1100000000000 j = Skip)
      \<and> examine ?e2 1100000000000 demo_foreign_key = Accept"
    by simp
  moreover from T
  have "selectNewEnclaveKey ?e2 1100000000000 = Inr demo_foreign_key \<longleftrightarrow>
      (\<exists>pre post. ?keys2 = pre @ demo_foreign_key # post
         \<and> (\<forall>j\<in>set pre. examine ?e2 1100000000000 j = Skip)
         \<and> examine ?e2 1100000000000 demo_foreign_key = Accept)"
    by blast
  ultimately have s2: "selectNewEnclaveKey ?e2 1100000000000 = Inr demo_foreign_key"
    by blast
  have rq: "reportQuote ?e2 1100000000000 demo_foreign_key
      = Inr (\<lparr>MRENCLAVE = [9], ReportData = [0, 0, 0]\<rparr>, 0)"
    by (simp add: reportQuote_def demo_defs)
  have fc: "fetchClientState ?e2 = Inr demo_cs" by (simp add: fetchClientState_def demo_defs)
  have mm: "cs_Mrenclave demo_cs \<noteq> MRENCLAVE \<lparr>MRENCLAVE = [9], ReportData = [0, 0, 0]\<rparr>"
    by (simp add: demo_cs_def)
  have m7: "cs_Mrenclave demo_cs = [7]" by (simp add: demo_cs_def)
  from T rq fc mm
  have r: "registerEnclaveKey ?e2 1100000000000 demo_foreign_key (demo_world None None)
      = (Inl ErrMrenclaveMismatch, demo_world None None)"
    by blast
  from h x1 x2 x3 s1 h2 rq fc m7 y1 s2 r show ?thesis by simp
qed

text \<open>
  The claim as stated fails twice. A first candidate whose report does not verify is not
  skipped: the selection ends with its error although the second candidate passes every
  check. And a first candidate whose quote has another MRENCLAVE than the policy and the
  on-chain client state is not skipped either: the selection returns it, and the tick fails
  at its registration, with nothing submitted and the second candidate never tried.
\<close>

theorem candidate_selection_counterexample:
  "examine (demo_env [(demo_key 0 3 0)\<lparr>Signature := [0]\<rparr>, demo_key 0 0 0]) 1100000000000
        ((demo_key 0 3 0)\<lparr>Signature := [0]\<rparr>) = Abort (ErrExternal ''bad signature'')
   \<and> examine (demo_env [(demo_key 0 3 0)\<lparr>Signature := [0]\<rparr>, demo_key 0 0 0]) 1100000000000
        (demo_key 0 0 0) = Accept
   \<and> selectNewEnclaveKey (demo_env [(demo_key 0 3 0)\<lparr>Signature := [0]\<rparr>, demo_key 0 0 0])
        1100000000000 = Inl (ErrExternal ''bad signature'')
   \<and> ParseAndValidateAVR (iaslib (demo_env [demo_foreign_key, demo_key 0 0 0]))
        (Report demo_foreign_key)
      = Inr \<lparr>ISVEnclaveQuoteStatus = QuoteOK, AdvisoryIDs = [], GetTimestamp = 1000000000000,
             GetQuote = Inr \<lparr>MRENCLAVE = [9], ReportData = [0, 0, 0]\<rparr>\<rparr>
   \<and> GetMrenclave (config (demo_env [demo_foreign_key, demo_key 0 0 0])) = [7]
   \<and> examine (demo_env [demo_foreign_key, demo_key 0 0 0]) 1100000000000 (demo_key 0 0 0)
      = Accept
   \<and> selectNewEnclaveKey (demo_env [demo_foreign_key, demo_key 0 0 0]) 1100000000000
      = Inr demo_foreign_key
   \<and> UpdateEKIfNeeded (demo_env [demo_foreign_key, demo_key 0 0 0]) 1100000000000
        (demo_world None None)
      = (Some (Wrapped ''failed to call registerEnclaveKey'' ErrMrenclaveMismatch),
         \<lparr>activeEnclaveKey = None, unfinalizedMsgID = None, mem_trace = [(None, None)],
          db = \<lparr>finalized_recs = [], unfinalized_rec = None\<rparr>, sent = []\<rparr>)"
  by (simp add: select_defs register_defs UpdateEKIfNeeded_def acquireNewKey_def
      loadEKIAndCheckUpdateNeeded_def loadEKI_def loadLastUnfinalizedEnclaveKey_def
      loadLastFinalizedEnclaveKey_def assign_both_def observe_def demo_defs time_defs)

text \<open>
  Claim C1 fails on the code. The candidate below has quote status \<^verbatim>\<open>OK\<close> and a non-empty
  list of advisory IDs, all of them allowed by the configuration: the relayer's selection
  returns it, while the on-chain verification of its registration rejects it because the
  advisory IDs of an \<^verbatim>\<open>OK\<close> report must be empty.
\<close>

theorem ok_status_with_advisories_is_selected:
  "ParseAndValidateAVR (iaslib (demo_env [demo_key 0 1 0])) (Report (demo_key 0 1 0))
     = Inr \<lparr>ISVEnclaveQuoteStatus = QuoteOK, AdvisoryIDs = [''INTEL-SA-00334''],
            GetTimestamp = 1000000000000,
            GetQuote = Inr \<lparr>MRENCLAVE = [7], ReportData = [0, 1, 0]\<rparr>\<rparr>
   \<and> selectNewEnclaveKey (demo_env [demo_key 0 1 0]) 1100000000000 = Inr (demo_key 0 1 0)
   \<and> verifyRegisterEnclaveKey demo_ias demo_cs demo_ctx demo_store (demo_message (demo_key 0 1 0))
     = Some (ErrInvalidHeader ''advisory IDs should be empty when status is OK'')"
  by (simp add: select_defs verifyRegisterEnclaveKey_def types_QuoteOK_def demo_defs time_defs)

section \<open>The unfinalized key\<close>

lemma checkMsgStatus_found:
  "GetMsgResult (counterparty e) msgID = Inr r \<Longrightarrow>
   GetLatestFinalizedHeader (counterparty e) = Inr lf \<Longrightarrow>
   checkMsgStatus e msgID =
     (if \<not> fst (Status r) then Inr (False, False)
      else Inr (Height_LTE (BlockHeight r) lf, True))"
  by (simp add: checkMsgStatus_def)

lemma finalizedBranch_promote:
  "\<not> checkEKIUpdateNeeded e now eki \<Longrightarrow> \<not> disk_fault e OpSaveFinalized \<Longrightarrow>
   \<not> disk_fault e OpRemoveUnfinalized \<Longrightarrow>
   finalizedBranch e now eki w =
     (Inr False,
      assign_unfinalizedMsgID None
        (w\<lparr>db := (db w)\<lparr>finalized_recs :=
                        eki # filter (\<lambda>k. EnclaveKeyAddress k \<noteq> EnclaveKeyAddress eki)
                                (finalized_recs (db w)),
                      unfinalized_rec := None\<rparr>\<rparr>))"
  by (simp add: finalizedBranch_def saveFinalizedEnclaveKeyInfo_def
      removeUnfinalizedEnclaveKeyInfo_def)

text \<open>
  Claim C2, as the code has it: in Case C, when the in-flight registration message is found,
  succeeded, and its block height is at most the latest finalized height, the staleness
  predicate of Case B is applied first. If rotation is due, the function returns true at
  once and promotes nothing: no finalized record is saved, the unfinalized record stays and
  the unfinalized message ID stays. Only if rotation is not due is the key promoted (the
  finalized record saved, the unfinalized record removed, the unfinalized message ID
  cleared), and the function returns false.
\<close>

theorem finalized_message_check_then_promote:
  assumes "activeEnclaveKey w = Some eki" and "unfinalizedMsgID w = Some msgID"
    and "GetMsgResult (counterparty e) msgID = Inr r" and "fst (Status r)"
    and "GetLatestFinalizedHeader (counterparty e) = Inr lf"
    and "Height_LTE (BlockHeight r) lf"
  shows "(checkEKIUpdateNeeded e now eki \<longrightarrow>
            loadEKIAndCheckUpdateNeeded e now w = (Inr True, w))
       \<and> (\<not> checkEKIUpdateNeeded e now eki \<and> \<not> disk_fault e OpSaveFinalized
            \<and> \<not> disk_fault e OpRemoveUnfinalized \<longrightarrow>
          loadEKIAndCheckUpdateNeeded e now w =
            (Inr False,
             assign_unfinalizedMsgID None
               (w\<lparr>db := (db w)\<lparr>finalized_recs :=
                               eki # filter (\<lambda>k. EnclaveKeyAddress k \<noteq> EnclaveKeyAddress eki)
                                       (finalized_recs (db w)),
                             unfinalized_rec := None\<rparr>\<rparr>)))"
proof -
  have l: "loadEKIAndCheckUpdateNeeded e now w = finalizedBranch e now eki w"
    using assms
    by (simp add: loadEKIAndCheckUpdateNeeded_def loadEKI_active checkActiveEKI_def
        checkMsgStatus_found)
  show ?thesis
    unfolding l by (simp add: finalizedBranch_promote) (simp add: finalizedBranch_def)
qed

lemmas Height_defs = Height_LTE_def Height_LT_def

theorem finalized_message_check_then_promote_witness:
  "activeEnclaveKey (demo_world (Some (demo_key 0 0 0)) (Some 1)) = Some (demo_key 0 0 0)
   \<and> unfinalizedMsgID (demo_world (Some (demo_key 0 0 0)) (Some 1)) = Some 1
   \<and> checkMsgStatus (demo_env [demo_key 0 0 0]) 1 = Inr (True, True)
   \<and> checkEKIUpdateNeeded (demo_env [demo_key 0 0 0]) 3000000000000 (demo_key 0 0 0)
   \<and> loadEKIAndCheckUpdateNeeded (demo_env [demo_key 0 0 0]) 3000000000000
        (demo_world (Some (demo_key 0 0 0)) (Some 1))
      = (Inr True, demo_world (Some (demo_key 0 0 0)) (Some 1))
   \<and> \<not> checkEKIUpdateNeeded (demo_env [demo_key 0 0 0]) 1100000000000 (demo_key 0 0 0)
   \<and> loadEKIAndCheckUpdateNeeded (demo_env [demo_key 0 0 0]) 1100000000000
        (demo_world (Some (demo_key 0 0 0)) (Some 1))
      = (Inr False,
         \<lparr>activeEnclaveKey = Some (demo_key 0 0 0), unfinalizedMsgID = None,
          mem_trace = [(Some (demo_key 0 0 0), None)],
          db = \<lparr>finalized_recs = [demo_key 0 0 0], unfinalized_rec = None\<rparr>,
          sent = []\<rparr>)"
proof -
  let ?k = "demo_key 0 0 0"
  let ?e = "demo_env [?k]" and ?w = "demo_world (Some ?k) (Some 1)"
  let ?r = "\<lparr>Status = (True, []), BlockHeight = \<lparr>RevisionNumber = 0, RevisionHeight = 50\<rparr>\<rparr>"
  let ?lf = "\<lparr>RevisionNumber = 0, RevisionHeight = 60\<rparr>"
  have a: "activeEnclaveKey ?w = Some ?k" by (simp add: demo_world_def)
  have m: "unfinalizedMsgID ?w = Some 1" by (simp add: demo_world_def)
  have g: "GetMsgResult (counterparty ?e) 1 = Inr ?r" by (simp add: demo_env_def demo_chain_def)
  have s: "fst (Status ?r)" by simp
  have f: "GetLatestFinalizedHeader (counterparty ?e) = Inr ?lf"
    by (simp add: demo_env_def demo_chain_def)
  have h: "Height_LTE (BlockHeight ?r) ?lf" by (simp add: Height_defs)
  have c: "checkMsgStatus ?e 1 = Inr (True, True)"
    by (simp add: checkMsgStatus_def demo_env_def demo_chain_def Height_defs)
  have n1: "checkEKIUpdateNeeded ?e 3000000000000 ?k"
    by (simp add: checkEKIUpdateNeeded_def updateTime_def demo_defs time_defs)
  have n2: "\<not> checkEKIUpdateNeeded ?e 1100000000000 ?k"
    by (simp add: checkEKIUpdateNeeded_def updateTime_def demo_defs time_defs)
  have d: "\<not> disk_fault ?e OpSaveFinalized \<and> \<not> disk_fault ?e OpRemoveUnfinalized"
    by (simp add: demo_env_def)
  from finalized_message_check_then_promote [OF a m g s f h, of 3000000000000] n1
  have r1: "loadEKIAndCheckUpdateNeeded ?e 3000000000000 ?w = (Inr True, ?w)" by blast
  from finalized_message_check_then_promote [OF a m g s f h, of 1100000000000] n2 d
  have r2: "loadEKIAndCheckUpdateNeeded ?e 1100000000000 ?w =
      (Inr False,
       assign_unfinalizedMsgID None
         (?w\<lparr>db := (db ?w)\<lparr>finalized_recs :=
                         ?k # filter (\<lambda>j. EnclaveKeyAddress j \<noteq> EnclaveKeyAddress ?k)
                                 (finalized_recs (db ?w)),
                       unfinalized_rec := None\<rparr>\<rparr>))"
    by blast
  have w': "assign_unfinalizedMsgID None
         (?w\<lparr>db := (db ?w)\<lparr>finalized_recs :=
                         ?k # filter (\<lambda>j. EnclaveKeyAddress j \<noteq> EnclaveKeyAddress ?k)
                                 (finalized_recs (db ?w)),
                       unfinalized_rec := None\<rparr>\<rparr>)
      = \<lparr>activeEnclaveKey = Some ?k, unfinalizedMsgID = None,
          mem_trace = [(Some ?k, None)],
          db = \<lparr>finalized_recs = [?k], unfinalized_rec = None\<rparr>,
          sent = []\<rparr>"
    by (simp add: demo_world_def assign_unfinalizedMsgID_def observe_def)
  show ?thesis
    using a m c n1 n2 r1 r2 unfolding w' by simp
qed

text \<open>
  The claim as stated fails: the message of the active key is finalized and rotation is
  due, and the function returns true with the world unchanged: no finalized record, the
  unfinalized record still in the store, the unfinalized message ID still set.
\<close>

theorem promote_then_rotate_counterexample:
  "checkMsgStatus (demo_env [demo_key 0 0 0]) 1 = Inr (True, True)
   \<and> loadEKIAndCheckUpdateNeeded (demo_env [demo_key 0 0 0]) 3000000000000
        (demo_world (Some (demo_key 0 0 0)) (Some 1))
      = (Inr True,
         \<lparr>activeEnclaveKey = Some (demo_key 0 0 0), unfinalizedMsgID = Some 1,
          mem_trace = [],
          db = \<lparr>finalized_recs = [], unfinalized_rec = Some (demo_key 0 0 0, 1)\<rparr>,
          sent = []\<rparr>)"
  by (simp add: loadEKIAndCheckUpdateNeeded_def loadEKI_def checkActiveEKI_def
      checkMsgStatus_def finalizedBranch_def checkEKIUpdateNeeded_def updateTime_def
      Height_defs demo_defs time_defs)

lemma removeUnfinalized_ok:
  "\<not> disk_fault e OpRemoveUnfinalized \<Longrightarrow>
     removeUnfinalizedEnclaveKeyInfo e st = Inr (st\<lparr>unfinalized_rec := None\<rparr>)"
  by (simp add: removeUnfinalizedEnclaveKeyInfo_def)

lemma lost_message_update_needed:
  assumes "activeEnclaveKey w = Some eki" and "unfinalizedMsgID w = Some msgID"
    and "\<not> disk_fault e OpRemoveUnfinalized"
    and "(\<exists>err. GetMsgResult (counterparty e) msgID = Inl err)
         \<or> (\<exists>r lf. GetMsgResult (counterparty e) msgID = Inr r \<and> \<not> fst (Status r)
               \<and> GetLatestFinalizedHeader (counterparty e) = Inr lf)"
  shows "loadEKIAndCheckUpdateNeeded e now w =
           (Inr True, w\<lparr>db := (db w)\<lparr>unfinalized_rec := None\<rparr>\<rparr>)"
  using assms
  by (auto simp: loadEKIAndCheckUpdateNeeded_def loadEKI_active checkActiveEKI_def
      checkMsgStatus_found removeUnfinalized_ok)

text \<open>
  Claim C6: if the destination chain reports the in-flight registration message as not
  found, or as executed but failed, the tick removes the persisted unfinalized record,
  clears the memory to (none, none), and goes on to select and register a new candidate:
  the selection's error, or the registration's error, or the registration's message ID is
  what the tick continues with. (The removal from the store and, for a failed message, the
  query of the latest finalized header are taken to succeed.)
\<close>

theorem lost_registration_is_dropped_and_replaced:
  assumes "activeEnclaveKey w = Some eki" and "unfinalizedMsgID w = Some msgID"
    and "\<not> disk_fault e OpRemoveUnfinalized"
    and "(\<exists>err. GetMsgResult (counterparty e) msgID = Inl err)
         \<or> (\<exists>r lf. GetMsgResult (counterparty e) msgID = Inr r \<and> \<not> fst (Status r)
               \<and> GetLatestFinalizedHeader (counterparty e) = Inr lf)"
    and "w1 = assign_both None None (w\<lparr>db := (db w)\<lparr>unfinalized_rec := None\<rparr>\<rparr>)"
  shows "loadEKIAndCheckUpdateNeeded e now w =
           (Inr True, w\<lparr>db := (db w)\<lparr>unfinalized_rec := None\<rparr>\<rparr>)
       \<and> unfinalized_rec (db w1) = None
       \<and> activeEnclaveKey w1 = None \<and> unfinalizedMsgID w1 = None
       \<and> (\<forall>err. selectNewEnclaveKey e now = Inl err \<longrightarrow>
            UpdateEKIfNeeded e now w =
              (Some (Wrapped ''failed to call selectNewEnclaveKey'' err), w1))
       \<and> (\<forall>k err w2. selectNewEnclaveKey e now = Inr k
              \<and> registerEnclaveKey e now k w1 = (Inl err, w2) \<longrightarrow>
            UpdateEKIfNeeded e now w =
              (Some (Wrapped ''failed to call registerEnclaveKey'' err), w2))
       \<and> (\<forall>k i w2. selectNewEnclaveKey e now = Inr k
              \<and> registerEnclaveKey e now k w1 = (Inr i, w2) \<longrightarrow>
            (\<exists>msg. sent w2 = sent w @ [[msg]] \<and> msg_Report (ClientMessage msg) = Report k)
            \<and> UpdateEKIfNeeded e now w =
               (case checkMsgStatus e i of
                  Inl err \<Rightarrow> (Some (Wrapped ''failed to call checkMsgStatus'' err), w2)
                | Inr (finalized, success) \<Rightarrow>
                    if \<not> success then (Some (ErrMsgExecutionFailed i), w2)
                    else if finalized then
                      (case saveFinalizedEnclaveKeyInfo e k (db w2) of
                         Inl err \<Rightarrow> (Some err, w2)
                       | Inr db1 \<Rightarrow> (None, assign_activeEnclaveKey (Some k) (w2\<lparr>db := db1\<rparr>)))
                    else
                      (case saveUnfinalizedEnclaveKeyInfo e k i (db w2) of
                         Inl err \<Rightarrow> (Some err, w2)
                       | Inr db1 \<Rightarrow>
                           (None,
                            assign_unfinalizedMsgID (Some i)
                              (assign_activeEnclaveKey (Some k) (w2\<lparr>db := db1\<rparr>))))))"
proof -
  let ?w0 = "w\<lparr>db := (db w)\<lparr>unfinalized_rec := None\<rparr>\<rparr>"
  have l: "loadEKIAndCheckUpdateNeeded e now w = (Inr True, ?w0)"
    using assms(1-4) by (rule lost_message_update_needed)
  have u: "UpdateEKIfNeeded e now w = acquireNewKey e now ?w0"
    by (simp add: UpdateEKIfNeeded_def l)
  have w1: "assign_both None None ?w0 = w1" using assms(5) by simp
  have s1: "sent w1 = sent w" using assms(5) by simp
  show ?thesis
  proof (intro conjI allI impI)
    show "loadEKIAndCheckUpdateNeeded e now w = (Inr True, ?w0)" by (rule l)
    show "unfinalized_rec (db w1) = None" using assms(5) by simp
    show "activeEnclaveKey w1 = None" using assms(5) by simp
    show "unfinalizedMsgID w1 = None" using assms(5) by simp
  next
    fix err assume "selectNewEnclaveKey e now = Inl err"
    then show "UpdateEKIfNeeded e now w =
              (Some (Wrapped ''failed to call selectNewEnclaveKey'' err), w1)"
      unfolding u by (simp add: acquireNewKey_def w1)
  next
    fix k err w2
    assume "selectNewEnclaveKey e now = Inr k \<and> registerEnclaveKey e now k w1 = (Inl err, w2)"
    then show "UpdateEKIfNeeded e now w =
              (Some (Wrapped ''failed to call registerEnclaveKey'' err), w2)"
      unfolding u by (simp add: acquireNewKey_def w1)
  next
    fix k i w2
    assume a: "selectNewEnclaveKey e now = Inr k \<and> registerEnclaveKey e now k w1 = (Inr i, w2)"
    then have "registerEnclaveKey e now k w1 = (Inr i, w2)" by simp
    from registerEnclaveKey_frame [OF this] s1
    show "\<exists>msg. sent w2 = sent w @ [[msg]] \<and> msg_Report (ClientMessage msg) = Report k"
      by auto
  next
    fix k i w2
    assume a: "selectNewEnclaveKey e now = Inr k \<and> registerEnclaveKey e now k w1 = (Inr i, w2)"
    then show "UpdateEKIfNeeded e now w =
               (case checkMsgStatus e i of
                  Inl err \<Rightarrow> (Some (Wrapped ''failed to call checkMsgStatus'' err), w2)
                | Inr (finalized, success) \<Rightarrow>
                    if \<not> success then (Some (ErrMsgExecutionFailed i), w2)
                    else if finalized then
                      (case saveFinalizedEnclaveKeyInfo e k (db w2) of
                         Inl err \<Rightarrow> (Some err, w2)
                       | Inr db1 \<Rightarrow> (None, assign_activeEnclaveKey (Some k) (w2\<lparr>db := db1\<rparr>)))
                    else
                      (case saveUnfinalizedEnclaveKeyInfo e k i (db w2) of
                         Inl err \<Rightarrow> (Some err, w2)
                       | Inr db1 \<Rightarrow>
                           (None,
                            assign_unfinalizedMsgID (Some i)
                              (assign_activeEnclaveKey (Some k) (w2\<lparr>db := db1\<rparr>)))))"
      unfolding u by (simp add: acquireNewKey_def w1)
  qed
qed

lemmas load_defs =
  loadEKIAndCheckUpdateNeeded_def loadEKI_def checkActiveEKI_def checkMsgStatus_def
  finalizedBranch_def checkEKIUpdateNeeded_def updateTime_def
  loadLastFinalizedEnclaveKey_def loadLastUnfinalizedEnclaveKey_def
  saveFinalizedEnclaveKeyInfo_def saveUnfinalizedEnclaveKeyInfo_def
  removeUnfinalizedEnclaveKeyInfo_def

lemmas update_defs =
  UpdateEKIfNeeded_def acquireNewKey_def assign_both_def assign_activeEnclaveKey_def
  assign_unfinalizedMsgID_def observe_def

theorem lost_registration_is_dropped_and_replaced_witness:
  "activeEnclaveKey (demo_world (Some (demo_key 0 1 0)) (Some 5)) = Some (demo_key 0 1 0)
   \<and> unfinalizedMsgID (demo_world (Some (demo_key 0 1 0)) (Some 5)) = Some 5
   \<and> GetMsgResult (counterparty (demo_env [demo_key 0 0 0])) 5 = Inl (ErrExternal ''not found'')
   \<and> loadEKIAndCheckUpdateNeeded (demo_env [demo_key 0 0 0]) 1100000000000
        (demo_world (Some (demo_key 0 1 0)) (Some 5))
      = (Inr True,
         \<lparr>activeEnclaveKey = Some (demo_key 0 1 0), unfinalizedMsgID = Some 5, mem_trace = [],
          db = \<lparr>finalized_recs = [], unfinalized_rec = None\<rparr>, sent = []\<rparr>)
   \<and> UpdateEKIfNeeded (demo_env [demo_key 0 0 0]) 1100000000000
        (demo_world (Some (demo_key 0 1 0)) (Some 5))
      = (None,
         \<lparr>activeEnclaveKey = Some (demo_key 0 0 0), unfinalizedMsgID = None,
          mem_trace = [(None, None), (Some (demo_key 0 0 0), None)],
          db = \<lparr>finalized_recs = [demo_key 0 0 0], unfinalized_rec = None\<rparr>,
          sent = [[\<lparr>ClientId = ''lcp-client-0'', ClientMessage = demo_message (demo_key 0 0 0),
                    Signer = ''relayer''\<rparr>]]\<rparr>)"
proof -
  let ?old = "demo_key 0 1 0" and ?k = "demo_key 0 0 0"
  let ?e = "demo_env [?k]" and ?w = "demo_world (Some ?old) (Some 5)"
  let ?w1 = "assign_both None None (?w\<lparr>db := (db ?w)\<lparr>unfinalized_rec := None\<rparr>\<rparr>)"
  let ?msg = "\<lparr>ClientId = ''lcp-client-0'', ClientMessage = demo_message ?k,
                Signer = ''relayer''\<rparr>"
  let ?w2 = "?w1\<lparr>sent := [[?msg]]\<rparr>"
  have a: "activeEnclaveKey ?w = Some ?old" by (simp add: demo_world_def)
  have m: "unfinalizedMsgID ?w = Some 5" by (simp add: demo_world_def)
  have d: "\<not> disk_fault ?e OpRemoveUnfinalized" by (simp add: demo_env_def)
  have g: "GetMsgResult (counterparty ?e) 5 = Inl (ErrExternal ''not found'')"
    by (simp add: demo_env_def demo_chain_def)
  then have g': "(\<exists>err. GetMsgResult (counterparty ?e) 5 = Inl err)
         \<or> (\<exists>r lf. GetMsgResult (counterparty ?e) 5 = Inr r \<and> \<not> fst (Status r)
               \<and> GetLatestFinalizedHeader (counterparty ?e) = Inr lf)"
    by blast
  note T = lost_registration_is_dropped_and_replaced [OF a m d g' refl, of 1100000000000]
  have sel: "selectNewEnclaveKey ?e 1100000000000 = Inr ?k"
    by (simp add: select_defs demo_defs time_defs)
  have reg: "registerEnclaveKey ?e 1100000000000 ?k ?w1 = (Inr 1, ?w2)"
    by (simp add: register_defs update_defs demo_defs)
  from T have l: "loadEKIAndCheckUpdateNeeded ?e 1100000000000 ?w =
      (Inr True, ?w\<lparr>db := (db ?w)\<lparr>unfinalized_rec := None\<rparr>\<rparr>)"
    by blast
  from T sel reg have u: "UpdateEKIfNeeded ?e 1100000000000 ?w =
      (case checkMsgStatus ?e 1 of
         Inl err \<Rightarrow> (Some (Wrapped ''failed to call checkMsgStatus'' err), ?w2)
       | Inr (finalized, success) \<Rightarrow>
           if \<not> success then (Some (ErrMsgExecutionFailed 1), ?w2)
           else if finalized then
             (case saveFinalizedEnclaveKeyInfo ?e ?k (db ?w2) of
                Inl err \<Rightarrow> (Some err, ?w2)
              | Inr db1 \<Rightarrow> (None, assign_activeEnclaveKey (Some ?k) (?w2\<lparr>db := db1\<rparr>)))
           else
             (case saveUnfinalizedEnclaveKeyInfo ?e ?k 1 (db ?w2) of
                Inl err \<Rightarrow> (Some err, ?w2)
              | Inr db1 \<Rightarrow>
                  (None,
                   assign_unfinalizedMsgID (Some 1)
                     (assign_activeEnclaveKey (Some ?k) (?w2\<lparr>db := db1\<rparr>)))))"
    by blast
  have c: "checkMsgStatus ?e 1 = Inr (True, True)"
    by (simp add: checkMsgStatus_def demo_env_def demo_chain_def Height_defs)
  have l': "?w\<lparr>db := (db ?w)\<lparr>unfinalized_rec := None\<rparr>\<rparr> =
      \<lparr>activeEnclaveKey = Some ?old, unfinalizedMsgID = Some 5, mem_trace = [],
          db = \<lparr>finalized_recs = [], unfinalized_rec = None\<rparr>, sent = []\<rparr>"
    by (simp add: demo_world_def)
  have u': "UpdateEKIfNeeded ?e 1100000000000 ?w =
      (None,
         \<lparr>activeEnclaveKey = Some ?k, unfinalizedMsgID = None,
          mem_trace = [(None, None), (Some ?k, None)],
          db = \<lparr>finalized_recs = [?k], unfinalized_rec = None\<rparr>,
          sent = [[?msg]]\<rparr>)"
    unfolding u c
    by (simp add: saveFinalizedEnclaveKeyInfo_def update_defs demo_env_def demo_world_def)
  show ?thesis
    using a m g l u' unfolding l' by simp
qed

section \<open>Registration with an operator\<close>

lemma containsOperator_iff: "containsOperator ops operator \<longleftrightarrow> operator \<in> set ops"
  by (induction ops) auto

lemma operatorSignature_ok:
  "IsOperatorEnabled (eip712Signer e) \<Longrightarrow>
   operatorSignature e eki clientState expectedOperator = Inr sg \<Longrightarrow>
     \<exists>operator. GetSignerAddress (eip712Signer e) = Inr operator
        \<and> operator \<in> set (cs_Operators clientState)
        \<and> (expectedOperator \<noteq> 0 \<longrightarrow> operator = expectedOperator)"
  by (auto simp: operatorSignature_def containsOperator_iff split: sum.splits if_splits)

lemma registerEnclaveKey_reaches_submit:
  assumes "registerEnclaveKey e now eki w = (r, w')"
    and "(\<exists>i. r = Inr i) \<or> w' \<noteq> w"
  shows "\<exists>quote expectedOperator clientState sg.
           reportQuote e now eki = Inr (quote, expectedOperator)
           \<and> fetchClientState e = Inr clientState
           \<and> cs_Mrenclave clientState = MRENCLAVE quote
           \<and> operatorSignature e eki clientState expectedOperator = Inr sg"
  using assms
  by (auto simp: registerEnclaveKey_def split: sum.splits prod.splits if_splits)

text \<open>
  Claim C8: when operator signing is enabled, a registration that succeeds, or that changes
  anything at all (any message sent, any state written), has the configured operator
  address in the operator set of the LCP client state and, if the report data embeds a
  non-zero expected operator address, that address equal to the configured one. Otherwise
  \<^verbatim>\<open>registerEnclaveKey\<close> returns an error and leaves the world as it was: nothing is sent
  and nothing is written.
\<close>

theorem operator_checks_precede_submission:
  assumes "IsOperatorEnabled (eip712Signer e)"
    and "registerEnclaveKey e now eki w = (r, w')"
  shows "((\<exists>i. r = Inr i) \<or> w' \<noteq> w \<longrightarrow>
            (\<exists>quote expectedOperator clientState operator.
               reportQuote e now eki = Inr (quote, expectedOperator)
               \<and> fetchClientState e = Inr clientState
               \<and> GetSignerAddress (eip712Signer e) = Inr operator
               \<and> operator \<in> set (cs_Operators clientState)
               \<and> (expectedOperator \<noteq> 0 \<longrightarrow> operator = expectedOperator)))
       \<and> (\<forall>quote expectedOperator clientState operator.
             reportQuote e now eki = Inr (quote, expectedOperator)
             \<and> fetchClientState e = Inr clientState
             \<and> GetSignerAddress (eip712Signer e) = Inr operator
             \<and> \<not> (operator \<in> set (cs_Operators clientState)
                    \<and> (expectedOperator \<noteq> 0 \<longrightarrow> operator = expectedOperator)) \<longrightarrow>
             (\<exists>err. r = Inl err) \<and> w' = w \<and> sent w' = sent w)"
proof -
  have first: "\<exists>quote expectedOperator clientState operator.
               reportQuote e now eki = Inr (quote, expectedOperator)
               \<and> fetchClientState e = Inr clientState
               \<and> GetSignerAddress (eip712Signer e) = Inr operator
               \<and> operator \<in> set (cs_Operators clientState)
               \<and> (expectedOperator \<noteq> 0 \<longrightarrow> operator = expectedOperator)"
    if "(\<exists>i. r = Inr i) \<or> w' \<noteq> w"
  proof -
    from registerEnclaveKey_reaches_submit [OF assms(2) that]
    obtain quote expectedOperator clientState sg where
      q: "reportQuote e now eki = Inr (quote, expectedOperator)"
      and c: "fetchClientState e = Inr clientState"
      and s: "operatorSignature e eki clientState expectedOperator = Inr sg"
      by blast
    from operatorSignature_ok [OF assms(1) s] q c show ?thesis by blast
  qed
  have second: "(\<exists>err. r = Inl err) \<and> w' = w \<and> sent w' = sent w"
    if h: "reportQuote e now eki = Inr (quote, expectedOperator)
             \<and> fetchClientState e = Inr clientState
             \<and> GetSignerAddress (eip712Signer e) = Inr operator
             \<and> \<not> (operator \<in> set (cs_Operators clientState)
                    \<and> (expectedOperator \<noteq> 0 \<longrightarrow> operator = expectedOperator))"
    for quote expectedOperator clientState operator
  proof -
    have "\<not> ((\<exists>i. r = Inr i) \<or> w' \<noteq> w)"
    proof
      assume "(\<exists>i. r = Inr i) \<or> w' \<noteq> w"
      from first [OF this] h show False by auto
    qed
    then have "w' = w" and "\<not> (\<exists>i. r = Inr i)" by auto
    then show ?thesis by (cases r) auto
  qed
  from first second show ?thesis by blast
qed

theorem operator_checks_precede_submission_witness:
  "IsOperatorEnabled (eip712Signer (demo_env_operator [demo_key 0 0 170]))
   \<and> reportQuote (demo_env_operator [demo_key 0 0 170]) 1100000000000 (demo_key 0 0 170)
       = Inr (\<lparr>MRENCLAVE = [7], ReportData = [0, 0, 170]\<rparr>, 170)
   \<and> fetchClientState (demo_env_operator [demo_key 0 0 170]) = Inr demo_cs
   \<and> GetSignerAddress (eip712Signer (demo_env_operator [demo_key 0 0 170])) = Inr 187
   \<and> registerEnclaveKey (demo_env_operator [demo_key 0 0 170]) 1100000000000 (demo_key 0 0 170)
        (demo_world None None) = (Inl ErrOperatorMismatch, demo_world None None)
   \<and> fst (registerEnclaveKey (demo_env_operator [demo_key 0 0 187]) 1100000000000
        (demo_key 0 0 187) (demo_world None None)) = Inr 1
   \<and> reportQuote (demo_env_operator [demo_key 0 0 187]) 1100000000000 (demo_key 0 0 187)
       = Inr (\<lparr>MRENCLAVE = [7], ReportData = [0, 0, 187]\<rparr>, 187)"
proof -
  let ?e = "demo_env_operator [demo_key 0 0 170]" and ?k = "demo_key 0 0 170"
  let ?e2 = "demo_env_operator [demo_key 0 0 187]" and ?k2 = "demo_key 0 0 187"
  let ?w = "demo_world None None"
  have en: "IsOperatorEnabled (eip712Signer ?e)" by (simp add: demo_defs)
  have en2: "IsOperatorEnabled (eip712Signer ?e2)" by (simp add: demo_defs)
  have q: "reportQuote ?e 1100000000000 ?k = Inr (\<lparr>MRENCLAVE = [7], ReportData = [0, 0, 170]\<rparr>, 170)"
    by (simp add: reportQuote_def demo_defs)
  have q2: "reportQuote ?e2 1100000000000 ?k2
      = Inr (\<lparr>MRENCLAVE = [7], ReportData = [0, 0, 187]\<rparr>, 187)"
    by (simp add: reportQuote_def demo_defs)
  have c: "fetchClientState ?e = Inr demo_cs" by (simp add: fetchClientState_def demo_defs)
  have g: "GetSignerAddress (eip712Signer ?e) = Inr 187" by (simp add: demo_defs)
  have r: "registerEnclaveKey ?e 1100000000000 ?k ?w = (Inl ErrOperatorMismatch, ?w)"
    by (simp add: register_defs demo_defs)
  have r2: "fst (registerEnclaveKey ?e2 1100000000000 ?k2 ?w) = Inr 1"
    by (simp add: register_defs demo_defs)
  obtain res w' where p: "registerEnclaveKey ?e2 1100000000000 ?k2 ?w = (res, w')"
    by (cases "registerEnclaveKey ?e2 1100000000000 ?k2 ?w")
  with r2 have "\<exists>i. res = Inr i" by simp
  with operator_checks_precede_submission [OF en2 p]
  have "\<exists>quote expectedOperator clientState operator.
               reportQuote ?e2 1100000000000 ?k2 = Inr (quote, expectedOperator)
               \<and> fetchClientState ?e2 = Inr clientState
               \<and> GetSignerAddress (eip712Signer ?e2) = Inr operator
               \<and> operator \<in> set (cs_Operators clientState)
               \<and> (expectedOperator \<noteq> 0 \<longrightarrow> operator = expectedOperator)"
    by blast
  with en q c g r r2 q2 operator_checks_precede_submission [OF en r]
  show ?thesis by simp
qed

section \<open>The invariant of the memory\<close>

lemma mem_steps_refl: "mem_steps w w"
  by (simp add: mem_steps_def)

lemma mem_steps_trans:
  assumes "mem_steps a b" and "mem_steps b c"
  shows "mem_steps a c"
proof -
  from assms(1) obtain x where x: "mem_trace b = mem_trace a @ x" "mem b = last (mem a # x)"
    "list_all mem_inv x"
    unfolding mem_steps_def by blast
  from assms(2) obtain y where y: "mem_trace c = mem_trace b @ y" "mem c = last (mem b # y)"
    "list_all mem_inv y"
    unfolding mem_steps_def by blast
  have "mem_trace c = mem_trace a @ (x @ y)" using x y by simp
  moreover have "mem c = last (mem a # (x @ y))" using x y by (cases y) simp_all
  moreover have "list_all mem_inv (x @ y)" using x y by simp
  ultimately show ?thesis unfolding mem_steps_def by blast
qed

lemma mem_steps_db: "mem_steps w (w\<lparr>db := d\<rparr>)"
  by (simp add: mem_steps_def mem_def)

lemma mem_steps_sent: "mem_steps w (w\<lparr>sent := s\<rparr>)"
  by (simp add: mem_steps_def mem_def)

lemma mem_steps_active: "mem_steps w (assign_activeEnclaveKey (Some k) w)"
  by (simp add: mem_steps_def mem_def mem_inv_def)

lemma mem_steps_msg_None: "mem_steps w (assign_unfinalizedMsgID None w)"
  by (simp add: mem_steps_def mem_def mem_inv_def)

lemma mem_steps_active_msg:
  "mem_steps w (assign_unfinalizedMsgID m (assign_activeEnclaveKey (Some k) w))"
  by (simp add: mem_steps_def mem_def mem_inv_def)

lemma mem_steps_clear: "mem_steps w (assign_both None None w)"
  by (simp add: mem_steps_def mem_def mem_inv_def)

lemma mem_steps_after_db:
  "mem_steps (w\<lparr>db := d\<rparr>) w' \<Longrightarrow> mem_steps w w'"
  by (rule mem_steps_trans [OF mem_steps_db])

lemma loadEKI_mem: "loadEKI e w = (r, w') \<Longrightarrow> mem_steps w w'"
  by (auto simp: loadEKI_def mem_steps_refl mem_steps_active_msg
      split: if_splits sum.splits prod.splits)

lemma finalizedBranch_mem: "finalizedBranch e now eki w = (r, w') \<Longrightarrow> mem_steps w w'"
  by (auto simp: finalizedBranch_def mem_steps_refl mem_steps_db
      split: if_splits sum.splits
      intro: mem_steps_after_db mem_steps_msg_None)

lemma checkActiveEKI_mem: "checkActiveEKI e now w = (r, w') \<Longrightarrow> mem_steps w w'"
  by (auto simp: checkActiveEKI_def mem_steps_refl mem_steps_db
      split: if_splits sum.splits option.splits prod.splits
      dest: finalizedBranch_mem)

lemma loadEKIAndCheckUpdateNeeded_mem:
  assumes "loadEKIAndCheckUpdateNeeded e now w = (r, w')"
  shows "mem_steps w w'"
proof (cases "loadEKI e w")
  case (Pair early w1)
  then have s1: "mem_steps w w1" by (rule loadEKI_mem)
  show ?thesis
  proof (cases early)
    case None
    with Pair assms have "checkActiveEKI e now w1 = (r, w')"
      by (simp add: loadEKIAndCheckUpdateNeeded_def)
    then have "mem_steps w1 w'" by (rule checkActiveEKI_mem)
    with s1 show ?thesis by (rule mem_steps_trans)
  next
    case (Some x)
    with Pair assms have "w' = w1" by (simp add: loadEKIAndCheckUpdateNeeded_def)
    with s1 show ?thesis by simp
  qed
qed

lemma registerEnclaveKey_mem:
  "registerEnclaveKey e now eki w = (r, w') \<Longrightarrow> mem_steps w w'"
  by (auto dest!: registerEnclaveKey_frame simp: mem_steps_refl mem_steps_sent)

lemma acquireNewKey_mem:
  assumes "acquireNewKey e now w = (r, w')"
  shows "mem_steps w w'"
proof -
  let ?w0 = "assign_both None None w"
  have c: "mem_steps w ?w0" by (rule mem_steps_clear)
  have "mem_steps ?w0 w'"
  proof (cases "selectNewEnclaveKey e now")
    case (Inl err)
    with assms have "w' = ?w0" by (simp add: acquireNewKey_def)
    then show ?thesis by (simp add: mem_steps_refl)
  next
    case (Inr eki)
    obtain res w1 where reg: "registerEnclaveKey e now eki ?w0 = (res, w1)"
      by (cases "registerEnclaveKey e now eki ?w0")
    then have s1: "mem_steps ?w0 w1" by (rule registerEnclaveKey_mem)
    have "mem_steps w1 w'"
      using assms Inr reg
      by (auto simp: acquireNewKey_def mem_steps_refl
          split: sum.splits prod.splits if_splits
          intro: mem_steps_after_db mem_steps_active mem_steps_active_msg)
    with s1 show ?thesis by (rule mem_steps_trans)
  qed
  with c show ?thesis by (rule mem_steps_trans)
qed

lemma UpdateEKIfNeeded_mem:
  assumes "UpdateEKIfNeeded e now w = (r, w')"
  shows "mem_steps w w'"
proof (cases "loadEKIAndCheckUpdateNeeded e now w")
  case (Pair res w1)
  then have s1: "mem_steps w w1" by (rule loadEKIAndCheckUpdateNeeded_mem)
  show ?thesis
  proof (cases res)
    case (Inl err)
    with Pair assms have "w' = w1" by (simp add: UpdateEKIfNeeded_def)
    with s1 show ?thesis by simp
  next
    case (Inr updateNeeded)
    show ?thesis
    proof (cases updateNeeded)
      case False
      with Inr Pair assms have "w' = w1" by (simp add: UpdateEKIfNeeded_def)
      with s1 show ?thesis by simp
    next
      case True
      with Inr Pair assms have "acquireNewKey e now w1 = (r, w')"
        by (simp add: UpdateEKIfNeeded_def)
      then have "mem_steps w1 w'" by (rule acquireNewKey_mem)
      with s1 show ?thesis by (rule mem_steps_trans)
    qed
  qed
qed

text \<open>
  Claim C7: every value that the pair (active key, unfinalized message ID) takes during
  \<^verbatim>\<open>UpdateEKIfNeeded\<close> and its helpers has an active key whenever it has an unfinalized
  message ID, and so has the memory at the end, provided the memory at the start has. The
  values are those of the trace, which grows at every assignment to the two fields; the
  external calls and the writes to disk lie between assignments.
\<close>

theorem unfinalized_msg_id_implies_active_key:
  assumes "unfinalizedMsgID w \<noteq> None \<longrightarrow> activeEnclaveKey w \<noteq> None"
    and "UpdateEKIfNeeded e now w = (r, w')"
  shows "\<exists>ext. mem_trace w' = mem_trace w @ ext
           \<and> (activeEnclaveKey w', unfinalizedMsgID w')
               = last ((activeEnclaveKey w, unfinalizedMsgID w) # ext)
           \<and> (\<forall>(k, m)\<in>set ext. m \<noteq> None \<longrightarrow> k \<noteq> None)
           \<and> (unfinalizedMsgID w' \<noteq> None \<longrightarrow> activeEnclaveKey w' \<noteq> None)"
proof -
  from UpdateEKIfNeeded_mem [OF assms(2)] obtain ext where
    t: "mem_trace w' = mem_trace w @ ext" and l: "mem w' = last (mem w # ext)"
    and i: "list_all mem_inv ext"
    unfolding mem_steps_def by blast
  have i': "\<forall>(k, m)\<in>set ext. m \<noteq> None \<longrightarrow> k \<noteq> None"
    using i by (auto simp: list_all_iff mem_inv_def)
  have "mem_inv (mem w)" using assms(1) by (simp add: mem_inv_def mem_def)
  then have "list_all mem_inv (mem w # ext)" using i by simp
  then have "mem_inv (last (mem w # ext))"
    unfolding list_all_iff using last_in_set [of "mem w # ext"] by blast
  then have f: "unfinalizedMsgID w' \<noteq> None \<longrightarrow> activeEnclaveKey w' \<noteq> None"
    unfolding l [symmetric] by (simp add: mem_inv_def mem_def)
  from t l i' f show ?thesis unfolding mem_def by blast
qed

theorem unfinalized_msg_id_implies_active_key_witness:
  "unfinalizedMsgID (demo_world None None) = None
   \<and> UpdateEKIfNeeded
        ((demo_env [demo_key 0 0 0])\<lparr>counterparty :=
           demo_chain\<lparr>GetLatestFinalizedHeader :=
             Inr \<lparr>RevisionNumber = 0, RevisionHeight = 40\<rparr>\<rparr>\<rparr>)
        1100000000000 (demo_world None None)
      = (None,
         \<lparr>activeEnclaveKey = Some (demo_key 0 0 0), unfinalizedMsgID = Some 1,
          mem_trace = [(None, None), (Some (demo_key 0 0 0), None),
                       (Some (demo_key 0 0 0), Some 1)],
          db = \<lparr>finalized_recs = [], unfinalized_rec = Some (demo_key 0 0 0, 1)\<rparr>,
          sent = [[\<lparr>ClientId = ''lcp-client-0'', ClientMessage = demo_message (demo_key 0 0 0),
                    Signer = ''relayer''\<rparr>]]\<rparr>)"
proof -
  let ?e = "(demo_env [demo_key 0 0 0])\<lparr>counterparty :=
           demo_chain\<lparr>GetLatestFinalizedHeader :=
             Inr \<lparr>RevisionNumber = 0, RevisionHeight = 40\<rparr>\<rparr>\<rparr>"
  let ?w = "demo_world None None"
  let ?w' = "\<lparr>activeEnclaveKey = Some (demo_key 0 0 0), unfinalizedMsgID = Some 1,
          mem_trace = [(None, None), (Some (demo_key 0 0 0), None),
                       (Some (demo_key 0 0 0), Some 1)],
          db = \<lparr>finalized_recs = [], unfinalized_rec = Some (demo_key 0 0 0, 1)\<rparr>,
          sent = [[\<lparr>ClientId = ''lcp-client-0'', ClientMessage = demo_message (demo_key 0 0 0),
                    Signer = ''relayer''\<rparr>]]\<rparr>"
  have n: "unfinalizedMsgID ?w = None" by (simp add: demo_world_def)
  then have h: "unfinalizedMsgID ?w \<noteq> None \<longrightarrow> activeEnclaveKey ?w \<noteq> None" by simp
  have p: "UpdateEKIfNeeded ?e 1100000000000 ?w = (None, ?w')"
    by (simp add: update_defs load_defs select_defs register_defs validateAdvisoryIDs_def
        Height_defs demo_defs time_defs)
  from unfinalized_msg_id_implies_active_key [OF h p] n p show ?thesis by simp
qed

section \<open>The on-chain client\<close>

lemma verifyQuoteAndExpiration_stored:
  assumes "GetQuote avr = Inr quote" and "GetEnclaveKeyAddress lib quote = Inr addr"
    and "kv_enclaveKeys clientStore addr = Some stored"
  shows "verifyQuoteAndExpiration lib cs clientStore avr =
     (if cs_Mrenclave cs \<noteq> MRENCLAVE quote
      then Some (ErrInvalidHeader ''invalid AVR: mrenclave mismatch'')
      else if \<not> time_Equal (time_Unix stored) (time_Add (GetTimestamp avr) (getKeyExpiration cs))
      then Some (ErrInvalidHeader ''enclave key already exists'')
      else None)"
  using assms by (simp add: verifyQuoteAndExpiration_def GetEnclaveKeyExpiredAt_def)

lemma verifyRegisterEnclaveKey_accepts:
  assumes "VerifyReport lib (msg_Report message) (msg_Signature message)
             (msg_SigningCert message) (BlockTime ctx) = None"
    and "ParseAndValidateAVR lib (msg_Report message) = Inr avr"
    and "(status_String (ISVEnclaveQuoteStatus avr) = types_QuoteOK \<and> AdvisoryIDs avr = [])
         \<or> (status_String (ISVEnclaveQuoteStatus avr) \<noteq> types_QuoteOK
             \<and> isAllowedStatus cs (status_String (ISVEnclaveQuoteStatus avr))
             \<and> isAllowedAdvisoryIDs cs (AdvisoryIDs avr))"
  shows "verifyRegisterEnclaveKey lib cs ctx clientStore message =
           verifyQuoteAndExpiration lib cs clientStore avr"
  using assms by (auto simp: verifyRegisterEnclaveKey_def Let_def)

lemma verifyRegisterEnclaveKey_rejects:
  assumes "ParseAndValidateAVR lib (msg_Report message) = Inr avr"
    and "verifyQuoteAndExpiration lib cs clientStore avr = Some err"
  shows "\<exists>err'. verifyRegisterEnclaveKey lib cs ctx clientStore message = Some err'"
  using assms by (auto simp: verifyRegisterEnclaveKey_def Let_def split: option.splits)

text \<open>
  Claim C9: for a registration message whose report parses to an enclave key address that
  the client already stores, with \<open>expiredAt\<close> the recomputed expiration (AVR timestamp plus
  key expiration): if the stored expiration equals \<open>expiredAt\<close>, verification succeeds
  (the report verifying and passing the checks of status, advisory IDs and measurement);
  the update leaves the store, with the key set and its expiration, as it was and only
  emits an event; if the stored expiration differs from \<open>expiredAt\<close>, verification rejects
  the message.
\<close>

theorem duplicate_registration_is_noop:
  assumes "ParseAndValidateAVR lib (msg_Report message) = Inr avr"
    and "GetQuote avr = Inr quote"
    and "GetEnclaveKeyAddress lib quote = Inr addr"
    and "kv_enclaveKeys clientStore addr = Some stored"
    and "expiredAt = time_Add (GetTimestamp avr) (getKeyExpiration cs)"
  shows "(time_Equal (time_Unix stored) expiredAt
            \<and> VerifyReport lib (msg_Report message) (msg_Signature message)
                 (msg_SigningCert message) (BlockTime ctx) = None
            \<and> ((status_String (ISVEnclaveQuoteStatus avr) = types_QuoteOK \<and> AdvisoryIDs avr = [])
                \<or> (status_String (ISVEnclaveQuoteStatus avr) \<noteq> types_QuoteOK
                    \<and> isAllowedStatus cs (status_String (ISVEnclaveQuoteStatus avr))
                    \<and> isAllowedAdvisoryIDs cs (AdvisoryIDs avr)))
            \<and> cs_Mrenclave cs = MRENCLAVE quote \<longrightarrow>
          verifyRegisterEnclaveKey lib cs ctx clientStore message = None)
       \<and> cs_registerEnclaveKey lib cs ctx clientStore message =
           Inr (ctx\<lparr>Events := Events ctx @ [EventRegisteredEnclaveKey addr expiredAt]\<rparr>,
                clientStore)
       \<and> (\<not> time_Equal (time_Unix stored) expiredAt \<longrightarrow>
           (\<exists>err. verifyRegisterEnclaveKey lib cs ctx clientStore message = Some err))"
proof (intro conjI impI)
  assume a: "time_Equal (time_Unix stored) expiredAt
            \<and> VerifyReport lib (msg_Report message) (msg_Signature message)
                 (msg_SigningCert message) (BlockTime ctx) = None
            \<and> ((status_String (ISVEnclaveQuoteStatus avr) = types_QuoteOK \<and> AdvisoryIDs avr = [])
                \<or> (status_String (ISVEnclaveQuoteStatus avr) \<noteq> types_QuoteOK
                    \<and> isAllowedStatus cs (status_String (ISVEnclaveQuoteStatus avr))
                    \<and> isAllowedAdvisoryIDs cs (AdvisoryIDs avr)))
            \<and> cs_Mrenclave cs = MRENCLAVE quote"
  then have "verifyRegisterEnclaveKey lib cs ctx clientStore message =
           verifyQuoteAndExpiration lib cs clientStore avr"
    using assms(1) by (intro verifyRegisterEnclaveKey_accepts) simp_all
  also have "\<dots> = None"
    using a assms(5) by (simp add: verifyQuoteAndExpiration_stored [OF assms(2-4)])
  finally show "verifyRegisterEnclaveKey lib cs ctx clientStore message = None" .
next
  show "cs_registerEnclaveKey lib cs ctx clientStore message =
           Inr (ctx\<lparr>Events := Events ctx @ [EventRegisteredEnclaveKey addr expiredAt]\<rparr>,
                clientStore)"
    using assms by (simp add: cs_registerEnclaveKey_def Contains_def)
next
  assume "\<not> time_Equal (time_Unix stored) expiredAt"
  then have "\<exists>err. verifyQuoteAndExpiration lib cs clientStore avr = Some err"
    using assms(5) by (simp add: verifyQuoteAndExpiration_stored [OF assms(2-4)])
  then obtain err where "verifyQuoteAndExpiration lib cs clientStore avr = Some err" ..
  with assms(1) show "\<exists>err. verifyRegisterEnclaveKey lib cs ctx clientStore message = Some err"
    by (rule verifyRegisterEnclaveKey_rejects)
qed

lemmas onchain_defs =
  verifyRegisterEnclaveKey_def verifyQuoteAndExpiration_def cs_registerEnclaveKey_def
  GetEnclaveKeyExpiredAt_def Contains_def getKeyExpiration_def isAllowedStatus_def
  isAllowedAdvisoryIDs_def types_QuoteOK_def

theorem duplicate_registration_is_noop_witness:
  "ParseAndValidateAVR demo_ias (msg_Report (demo_message (demo_key 0 0 0)))
     = Inr \<lparr>ISVEnclaveQuoteStatus = QuoteOK, AdvisoryIDs = [], GetTimestamp = 1000000000000,
            GetQuote = Inr \<lparr>MRENCLAVE = [7], ReportData = [0, 0, 0]\<rparr>\<rparr>
   \<and> kv_enclaveKeys demo_store 0 = Some 4600
   \<and> time_Add 1000000000000 (getKeyExpiration demo_cs) = 4600000000000
   \<and> verifyRegisterEnclaveKey demo_ias demo_cs demo_ctx demo_store
        (demo_message (demo_key 0 0 0)) = None
   \<and> cs_registerEnclaveKey demo_ias demo_cs demo_ctx demo_store (demo_message (demo_key 0 0 0))
      = Inr (demo_ctx\<lparr>Events := [EventRegisteredEnclaveKey 0 4600000000000]\<rparr>, demo_store)
   \<and> time_Add 1000000000000 (getKeyExpiration (demo_cs\<lparr>cs_KeyExpiration := 7200\<rparr>))
      = 8200000000000
   \<and> verifyRegisterEnclaveKey demo_ias (demo_cs\<lparr>cs_KeyExpiration := 7200\<rparr>) demo_ctx demo_store
        (demo_message (demo_key 0 0 0))
      = Some (ErrInvalidHeader ''enclave key already exists'')"
proof -
  let ?m = "demo_message (demo_key 0 0 0)"
  let ?q = "\<lparr>MRENCLAVE = [7], ReportData = [0, 0, 0]\<rparr>"
  let ?avr = "\<lparr>ISVEnclaveQuoteStatus = QuoteOK, AdvisoryIDs = [], GetTimestamp = 1000000000000,
            GetQuote = Inr ?q\<rparr>"
  let ?cs2 = "demo_cs\<lparr>cs_KeyExpiration := 7200\<rparr>"
  have p: "ParseAndValidateAVR demo_ias (msg_Report ?m) = Inr ?avr" by (simp add: demo_defs)
  have q: "GetQuote ?avr = Inr ?q" by simp
  have a: "GetEnclaveKeyAddress demo_ias ?q = Inr 0" by (simp add: demo_defs)
  have s: "kv_enclaveKeys demo_store 0 = Some 4600" by (simp add: demo_defs)
  have x1: "time_Add 1000000000000 (getKeyExpiration demo_cs) = 4600000000000"
    by (simp add: getKeyExpiration_def demo_defs time_defs)
  have x2: "time_Add 1000000000000 (getKeyExpiration ?cs2) = 8200000000000"
    by (simp add: getKeyExpiration_def demo_defs time_defs)
  have e1: "4600000000000 = time_Add (GetTimestamp ?avr) (getKeyExpiration demo_cs)"
    using x1 by simp
  have e2: "8200000000000 = time_Add (GetTimestamp ?avr) (getKeyExpiration ?cs2)"
    using x2 by simp
  have v: "VerifyReport demo_ias (msg_Report ?m) (msg_Signature ?m) (msg_SigningCert ?m)
      (BlockTime demo_ctx) = None"
    by (simp add: demo_defs)
  have t1: "time_Equal (time_Unix 4600) 4600000000000" by (simp add: time_defs)
  have t2: "\<not> time_Equal (time_Unix 4600) 8200000000000" by (simp add: time_defs)
  have m1: "cs_Mrenclave demo_cs = MRENCLAVE ?q" by (simp add: demo_defs)
  have ev: "Events demo_ctx = []" by (simp add: demo_defs)
  note T1 = duplicate_registration_is_noop [OF p q a s e1, of demo_ctx]
  note T2 = duplicate_registration_is_noop [OF p q a s e2, of demo_ctx]
  from T1 t1 v m1 have r1: "verifyRegisterEnclaveKey demo_ias demo_cs demo_ctx demo_store ?m = None"
    by (simp add: types_QuoteOK_def)
  from T1 ev have r2: "cs_registerEnclaveKey demo_ias demo_cs demo_ctx demo_store ?m
      = Inr (demo_ctx\<lparr>Events := [EventRegisteredEnclaveKey 0 4600000000000]\<rparr>, demo_store)"
    by simp
  from T2 t2 have "\<exists>err. verifyRegisterEnclaveKey demo_ias ?cs2 demo_ctx demo_store ?m = Some err"
    by blast
  moreover have "verifyRegisterEnclaveKey demo_ias ?cs2 demo_ctx demo_store ?m
      = Some (ErrInvalidHeader ''enclave key already exists'')"
    by (simp add: onchain_defs demo_defs time_defs)
  ultimately show ?thesis using p s x1 x2 r1 r2 by simp
qed

lemma Height_max:
  "\<not> Height_LT a b \<Longrightarrow> Height_LTE b a"
  "Height_LT a b \<Longrightarrow> Height_LTE a b"
  "Height_LTE a a"
  by (auto simp: Height_LT_def Height_LTE_def)

text \<open>
  Claim C10: applying an update-client message never decreases the latest height: the
  persisted client state is the one the method is called on with its latest height
  replaced by the maximum (in the order of heights) of the previous latest height and the
  message's post height, and a consensus state is written at the post height in every
  case.
\<close>

theorem updateClient_latest_height_is_max:
  assumes "GetELCMessage message = Inr emsg"
  shows "\<exists>clientStore' cs'.
           updateClient GetELCMessage cs clientStore message = Inr clientStore'
           \<and> kv_clientState clientStore' = Some cs'
           \<and> cs' = cs\<lparr>cs_LatestHeight := cs_LatestHeight cs'\<rparr>
           \<and> cs_LatestHeight cs' =
               (if Height_LT (cs_LatestHeight cs) (PostHeight emsg) then PostHeight emsg
                else cs_LatestHeight cs)
           \<and> Height_LTE (cs_LatestHeight cs) (cs_LatestHeight cs')
           \<and> Height_LTE (PostHeight emsg) (cs_LatestHeight cs')
           \<and> (cs_LatestHeight cs' = cs_LatestHeight cs \<or> cs_LatestHeight cs' = PostHeight emsg)
           \<and> kv_consensusStates clientStore' (PostHeight emsg) =
               Some \<lparr>StateId = PostStateID emsg,
                     Timestamp = word_of_nat (emsg_Timestamp emsg)\<rparr>"
  using assms
  by (simp add: updateClient_def setClientState_def setConsensusState_def Let_def Height_max)

theorem updateClient_latest_height_is_max_witness:
  "demo_GetELCMessage (demo_update 20) = Inr (demo_emsg 20)
   \<and> Height_LT (cs_LatestHeight demo_cs) (PostHeight (demo_emsg 20))
   \<and> (case updateClient demo_GetELCMessage demo_cs demo_store (demo_update 20) of
         Inl err \<Rightarrow> False
       | Inr st \<Rightarrow>
           kv_clientState st
             = Some (demo_cs\<lparr>cs_LatestHeight := \<lparr>RevisionNumber = 0, RevisionHeight = 20\<rparr>\<rparr>)
           \<and> kv_consensusStates st \<lparr>RevisionNumber = 0, RevisionHeight = 20\<rparr>
             = Some \<lparr>StateId = [9], Timestamp = 77\<rparr>)
   \<and> demo_GetELCMessage (demo_update 5) = Inr (demo_emsg 5)
   \<and> \<not> Height_LT (cs_LatestHeight demo_cs) (PostHeight (demo_emsg 5))
   \<and> (case updateClient demo_GetELCMessage demo_cs demo_store (demo_update 5) of
         Inl err \<Rightarrow> False
       | Inr st \<Rightarrow>
           kv_clientState st = Some demo_cs
           \<and> cs_LatestHeight demo_cs = \<lparr>RevisionNumber = 0, RevisionHeight = 10\<rparr>
           \<and> kv_consensusStates st \<lparr>RevisionNumber = 0, RevisionHeight = 5\<rparr>
             = Some \<lparr>StateId = [9], Timestamp = 77\<rparr>)"
proof -
  have g1: "demo_GetELCMessage (demo_update 20) = Inr (demo_emsg 20)"
    by (simp add: demo_GetELCMessage_def demo_update_def)
  have g2: "demo_GetELCMessage (demo_update 5) = Inr (demo_emsg 5)"
    by (simp add: demo_GetELCMessage_def demo_update_def)
  have h1: "Height_LT (cs_LatestHeight demo_cs) (PostHeight (demo_emsg 20))"
    by (simp add: Height_LT_def demo_cs_def demo_emsg_def)
  have h2: "\<not> Height_LT (cs_LatestHeight demo_cs) (PostHeight (demo_emsg 5))"
    by (simp add: Height_LT_def demo_cs_def demo_emsg_def)
  from updateClient_latest_height_is_max
      [of demo_GetELCMessage "demo_update 20" "demo_emsg 20" demo_cs demo_store, OF g1] h1
  obtain st1 cs1 where
    u1: "updateClient demo_GetELCMessage demo_cs demo_store (demo_update 20) = Inr st1"
    and k1: "kv_clientState st1 = Some cs1"
    and c1: "cs1 = demo_cs\<lparr>cs_LatestHeight := cs_LatestHeight cs1\<rparr>"
    and l1: "cs_LatestHeight cs1 = PostHeight (demo_emsg 20)"
    and s1: "kv_consensusStates st1 (PostHeight (demo_emsg 20))
        = Some \<lparr>StateId = PostStateID (demo_emsg 20),
                 Timestamp = word_of_nat (emsg_Timestamp (demo_emsg 20))\<rparr>"
    by auto
  from updateClient_latest_height_is_max
      [of demo_GetELCMessage "demo_update 5" "demo_emsg 5" demo_cs demo_store, OF g2] h2
  obtain st2 cs2 where
    u2: "updateClient demo_GetELCMessage demo_cs demo_store (demo_update 5) = Inr st2"
    and k2: "kv_clientState st2 = Some cs2"
    and c2: "cs2 = demo_cs\<lparr>cs_LatestHeight := cs_LatestHeight cs2\<rparr>"
    and l2: "cs_LatestHeight cs2 = cs_LatestHeight demo_cs"
    and s2: "kv_consensusStates st2 (PostHeight (demo_emsg 5))
        = Some \<lparr>StateId = PostStateID (demo_emsg 5),
                 Timestamp = word_of_nat (emsg_Timestamp (demo_emsg 5))\<rparr>"
    by auto
  have c1': "cs1 = demo_cs\<lparr>cs_LatestHeight := \<lparr>RevisionNumber = 0, RevisionHeight = 20\<rparr>\<rparr>"
    using c1 l1 by (simp add: demo_emsg_def)
  have c2': "cs2 = demo_cs" using c2 l2 by simp
  have d: "cs_LatestHeight demo_cs = \<lparr>RevisionNumber = 0, RevisionHeight = 10\<rparr>"
    by (simp add: demo_cs_def)
  show ?thesis
    unfolding u1 u2 using g1 g2 h1 h2 k1 k2 c1' c2' s1 s2 d by (simp add: demo_emsg_def)
qed

end
